theory Spec2Isabelle
  imports Main
begin

section \<open>JavaScript values\<close>

text \<open>
  The server is untyped (\<^verbatim>\<open>// @ts-nocheck\<close>, every argument is \<^verbatim>\<open>any\<close>), so the values
  that flow through it are modelled as one datatype of JSON-like JavaScript values.
  Numbers are restricted to the integers below \<open>10\<^sup>2\<^sup>1\<close> in magnitude, which JavaScript
  writes in plain decimal (no fractions, no exponent form, no \<^verbatim>\<open>NaN\<close> or
  \<^verbatim>\<open>Infinity\<close>). The entry list of \<open>JObj\<close> holds the own
  enumerable properties of the object in the order JavaScript enumerates them; strings
  are lists of code units below 256.
\<close>

datatype json =
    JUndefined
  | JNull
  | JBool bool
  | JNum int
  | JStr string
  | JArr "json list"
  | JObj "(string \<times> json) list"

text \<open>
  What a \<^verbatim>\<open>throw\<close> raises: an \<^verbatim>\<open>Error\<close> instance with its message (also the
  \<^verbatim>\<open>TypeError\<close>s of the engine), an \<^verbatim>\<open>McpError\<close> with code and message, or any other
  value.
\<close>

datatype js_exn =
    JsError string
  | McpError int string
  | Thrown json

subsection \<open>Numbers and strings\<close>

fun show_nat :: "nat \<Rightarrow> string" where
  "show_nat n =
     (if n < 10 then [''0123456789'' ! n]
      else show_nat (n div 10) @ [''0123456789'' ! (n mod 10)])"

declare show_nat.simps [simp del]

definition show_int :: "int \<Rightarrow> string" where
  "show_int i = (if i < 0 then ''-'' @ show_nat (nat (- i)) else show_nat (nat i))"

fun join :: "string \<Rightarrow> string list \<Rightarrow> string" where
  "join sep [] = []"
| "join sep [x] = x"
| "join sep (x # y # ys) = x @ sep @ join sep (y # ys)"

text \<open>\<^verbatim>\<open>s.startsWith(p)\<close>\<close>

definition startsWith :: "string \<Rightarrow> string \<Rightarrow> bool" where
  "startsWith s p = (take (length p) s = p)"

text \<open>
  \<^verbatim>\<open>s.replace(pat, rep)\<close> with a string pattern: the first occurrence of \<open>pat\<close> is
  replaced, a string without an occurrence is returned as it is. (The source's only
  replacement is the empty string, so the \<^verbatim>\<open>$\<close> patterns of a replacement play no role.)
\<close>

fun replace :: "string \<Rightarrow> string \<Rightarrow> string \<Rightarrow> string" where
  "replace [] pat rep = (if pat = [] then rep else [])"
| "replace (c # cs) pat rep =
     (if startsWith (c # cs) pat then rep @ drop (length pat) (c # cs)
      else c # replace cs pat rep)"

subsection \<open>Truthiness, property access\<close>

fun truthy :: "json \<Rightarrow> bool" where
  "truthy JUndefined = False"
| "truthy JNull = False"
| "truthy (JBool b) = b"
| "truthy (JNum n) = (n \<noteq> 0)"
| "truthy (JStr s) = (s \<noteq> [])"
| "truthy (JArr xs) = True"
| "truthy (JObj kvs) = True"

text \<open>\<^verbatim>\<open>a || b\<close>\<close>

definition js_or :: "json \<Rightarrow> json \<Rightarrow> json" where
  "js_or a b = (if truthy a then a else b)"

fun nullish :: "json \<Rightarrow> bool" where
  "nullish JUndefined = True"
| "nullish JNull = True"
| "nullish v = False"

text \<open>
  \<^verbatim>\<open>String(v)\<close>, which is also the conversion of a template literal's \<^verbatim>\<open>${v}\<close>.
\<close>

fun js_String :: "json \<Rightarrow> string" where
  "js_String JUndefined = ''undefined''"
| "js_String JNull = ''null''"
| "js_String (JBool b) = (if b then ''true'' else ''false'')"
| "js_String (JNum n) = show_int n"
| "js_String (JStr s) = s"
| "js_String (JArr xs) = join '','' (map (\<lambda>x. if nullish x then [] else js_String x) xs)"
| "js_String (JObj kvs) = ''[object Object]''"

text \<open>
  Reading property \<open>k\<close> of a value that is neither \<^verbatim>\<open>null\<close> nor \<^verbatim>\<open>undefined\<close>. The
  property names the source reads (\<^verbatim>\<open>name\<close>, \<^verbatim>\<open>namespace\<close>, \<^verbatim>\<open>metadata\<close>, \<^verbatim>\<open>body\<close>,
  \<^verbatim>\<open>items\<close>, ...) are on no prototype of a JSON value, so on anything but an object
  with that key the read gives \<^verbatim>\<open>undefined\<close>.
\<close>

fun lookup_prop :: "json \<Rightarrow> string \<Rightarrow> json" where
  "lookup_prop (JObj kvs) k = (case map_of kvs k of None \<Rightarrow> JUndefined | Some v \<Rightarrow> v)"
| "lookup_prop v k = JUndefined"

text \<open>\<^verbatim>\<open>v.k\<close>: a \<^verbatim>\<open>TypeError\<close> on \<^verbatim>\<open>null\<close> and \<^verbatim>\<open>undefined\<close> (the message is V8's).\<close>

definition get_prop :: "json \<Rightarrow> string \<Rightarrow> js_exn + json" where
  "get_prop v k =
     (if nullish v
      then Inl (JsError (''Cannot read properties of '' @ js_String v @ '' (reading ''
                         @ [CHR 0x27] @ k @ [CHR 0x27] @ '')''))
      else Inr (lookup_prop v k))"

text \<open>\<^verbatim>\<open>v?.k\<close>\<close>

definition opt_prop :: "json \<Rightarrow> string \<Rightarrow> json" where
  "opt_prop v k = (if nullish v then JUndefined else lookup_prop v k)"

definition bind_e :: "js_exn + 'a \<Rightarrow> ('a \<Rightarrow> js_exn + 'b) \<Rightarrow> js_exn + 'b" where
  "bind_e r f = (case r of Inl e \<Rightarrow> Inl e | Inr v \<Rightarrow> f v)"

text \<open>\<^verbatim>\<open>v.a?.b\<close> and \<^verbatim>\<open>v.a?.b?.c\<close>\<close>

definition chain2 :: "json \<Rightarrow> string \<Rightarrow> string \<Rightarrow> js_exn + json" where
  "chain2 v a b = bind_e (get_prop v a) (\<lambda>x. Inr (opt_prop x b))"

definition chain3 :: "json \<Rightarrow> string \<Rightarrow> string \<Rightarrow> string \<Rightarrow> js_exn + json" where
  "chain3 v a b c = bind_e (get_prop v a) (\<lambda>x. Inr (opt_prop (opt_prop x b) c))"

subsection \<open>Object.keys, Object.entries, array methods\<close>

definition indices :: "nat \<Rightarrow> string list" where
  "indices n = map show_nat [0..<n]"

fun Object_entries :: "json \<Rightarrow> js_exn + (string \<times> json) list" where
  "Object_entries JUndefined = Inl (JsError ''Cannot convert undefined or null to object'')"
| "Object_entries JNull = Inl (JsError ''Cannot convert undefined or null to object'')"
| "Object_entries (JObj kvs) = Inr kvs"
| "Object_entries (JArr xs) = Inr (zip (indices (length xs)) xs)"
| "Object_entries (JStr s) = Inr (zip (indices (length s)) (map (\<lambda>c. JStr [c]) s))"
| "Object_entries v = Inr []"

definition Object_keys :: "json \<Rightarrow> js_exn + string list" where
  "Object_keys v = bind_e (Object_entries v) (\<lambda>es. Inr (map fst es))"

fun mapM :: "('a \<Rightarrow> js_exn + 'b) \<Rightarrow> 'a list \<Rightarrow> js_exn + 'b list" where
  "mapM f [] = Inr []"
| "mapM f (x # xs) =
     (case f x of
        Inl e \<Rightarrow> Inl e
      | Inr y \<Rightarrow> (case mapM f xs of Inl e \<Rightarrow> Inl e | Inr ys \<Rightarrow> Inr (y # ys)))"

text \<open>
  \<^verbatim>\<open>recv.map(f)\<close>, where \<open>what\<close> is the source text of the receiver: only an array has
  the method; the callback runs on the elements in order and its first exception ends
  the call.
\<close>

definition array_map :: "string \<Rightarrow> (json \<Rightarrow> js_exn + json) \<Rightarrow> json \<Rightarrow> js_exn + json" where
  "array_map what f recv =
     (case recv of
        JArr xs \<Rightarrow> bind_e (mapM f xs) (\<lambda>ys. Inr (JArr ys))
      | _ \<Rightarrow> if nullish recv then get_prop recv ''map''
             else Inl (JsError (what @ ''.map is not a function'')))"

fun find_e :: "(json \<Rightarrow> js_exn + bool) \<Rightarrow> json list \<Rightarrow> js_exn + json" where
  "find_e p [] = Inr JUndefined"
| "find_e p (x # xs) =
     (case p x of
        Inl e \<Rightarrow> Inl e
      | Inr b \<Rightarrow> if b then Inr x else find_e p xs)"

text \<open>
  \<^verbatim>\<open>recv?.find(p)\<close>: \<^verbatim>\<open>undefined\<close> on a nullish receiver, the first element that
  satisfies \<open>p\<close> on an array (\<^verbatim>\<open>undefined\<close> when there is none), a \<^verbatim>\<open>TypeError\<close> on
  anything else.
\<close>

definition opt_find :: "string \<Rightarrow> (json \<Rightarrow> js_exn + bool) \<Rightarrow> json \<Rightarrow> js_exn + json" where
  "opt_find what p recv =
     (case recv of
        JArr xs \<Rightarrow> find_e p xs
      | _ \<Rightarrow> if nullish recv then Inr JUndefined
             else Inl (JsError (what @ ''?.find is not a function'')))"

subsection \<open>JSON.stringify(v, null, 2)\<close>

definition hex2 :: "nat \<Rightarrow> string" where
  "hex2 n = [''0123456789abcdef'' ! (n div 16), ''0123456789abcdef'' ! (n mod 16)]"

definition quote_char :: "char \<Rightarrow> string" where
  "quote_char c =
     (if c = CHR 0x22 then [CHR 0x5C, CHR 0x22]
      else if c = CHR 0x5C then [CHR 0x5C, CHR 0x5C]
      else if c = CHR 0x08 then [CHR 0x5C, CHR ''b'']
      else if c = CHR 0x0C then [CHR 0x5C, CHR ''f'']
      else if c = CHR 0x0A then [CHR 0x5C, CHR ''n'']
      else if c = CHR 0x0D then [CHR 0x5C, CHR ''r'']
      else if c = CHR 0x09 then [CHR 0x5C, CHR ''t'']
      else if (of_char c :: nat) < 32 then [CHR 0x5C, CHR ''u'', CHR ''0'', CHR ''0''] @ hex2 (of_char c)
      else [c])"

definition quote :: "string \<Rightarrow> string" where
  "quote s = [CHR 0x22] @ concat (map quote_char s) @ [CHR 0x22]"

text \<open>
  The serialisation at indentation \<open>ind\<close>, with a gap of two spaces: \<open>None\<close> is
  \<^verbatim>\<open>undefined\<close> (no serialisation). A property whose value has none is left out of
  its object; such an element of an array is written \<^verbatim>\<open>null\<close>.
\<close>

fun stringify :: "string \<Rightarrow> json \<Rightarrow> string option" where
  "stringify ind JUndefined = None"
| "stringify ind JNull = Some ''null''"
| "stringify ind (JBool b) = Some (if b then ''true'' else ''false'')"
| "stringify ind (JNum n) = Some (show_int n)"
| "stringify ind (JStr s) = Some (quote s)"
| "stringify ind (JArr xs) =
     (if xs = [] then Some ''[]''
      else Some (''['' @ [CHR 0x0A] @ ind @ ''  ''
                 @ join ('','' @ [CHR 0x0A] @ ind @ ''  '')
                     (map (\<lambda>x. case stringify (ind @ ''  '') x of None \<Rightarrow> ''null'' | Some s \<Rightarrow> s) xs)
                 @ [CHR 0x0A] @ ind @ '']''))"
| "stringify ind (JObj kvs) =
     (let partial = concat (map (\<lambda>(k, v). case stringify (ind @ ''  '') v of
                                             None \<Rightarrow> []
                                           | Some s \<Rightarrow> [quote k @ '': '' @ s]) kvs)
      in if partial = [] then Some ''{}''
         else Some (''{'' @ [CHR 0x0A] @ ind @ ''  ''
                    @ join ('','' @ [CHR 0x0A] @ ind @ ''  '') partial
                    @ [CHR 0x0A] @ ind @ ''}''))"

definition JSON_stringify :: "json \<Rightarrow> json" where
  "JSON_stringify v = (case stringify [] v of None \<Rightarrow> JUndefined | Some s \<Rightarrow> JStr s)"

section \<open>The server\<close>

subsection \<open>The cluster client and its calls\<close>

text \<open>
  The methods of \<^verbatim>\<open>this.k8sApi.core\<close> and \<^verbatim>\<open>this.k8sApi.apps\<close> that the server
  calls. A call is a method with the arguments passed to it, in their positions.
\<close>

datatype api_method =
    core_getAPIResources
  | core_listNamespacedPod
  | core_listNamespacedService
  | apps_listNamespacedDeployment
  | core_readNamespacedPod
  | core_readNamespacedService
  | apps_readNamespacedDeployment
  | core_readNamespacedPodLog
  | core_listNamespace
  | core_listNode
  | core_readNode
  | core_listNamespacedConfigMap
  | core_readNamespacedConfigMap

type_synonym api_call = "api_method \<times> json list"

text \<open>
  The client library is not part of the repository: the cluster client is a parameter,
  a function that answers a call with a response or with an exception. So is the
  \<^verbatim>\<open>KubeConfig\<close> object \<^verbatim>\<open>this.kc\<close>, of which the server reads the current context and
  the cluster of a context.
\<close>

record kube_config =
  getCurrentContext :: "js_exn + json"
  getCluster :: "json \<Rightarrow> js_exn + json"

record server =
  kc :: kube_config
  k8sApi :: "api_method \<Rightarrow> json list \<Rightarrow> js_exn + json"

subsection \<open>Computations: a result or an exception, and the upstream calls made\<close>

type_synonym 'a comp = "(js_exn + 'a) \<times> api_call list"

definition ret :: "'a \<Rightarrow> 'a comp" where
  "ret v = (Inr v, [])"

definition throw :: "js_exn \<Rightarrow> 'a comp" where
  "throw e = (Inl e, [])"

definition lift :: "js_exn + 'a \<Rightarrow> 'a comp" where
  "lift r = (r, [])"

definition bind :: "'a comp \<Rightarrow> ('a \<Rightarrow> 'b comp) \<Rightarrow> 'b comp" where
  "bind m f =
     (case fst m of
        Inl e \<Rightarrow> (Inl e, snd m)
      | Inr v \<Rightarrow> (fst (f v), snd m @ snd (f v)))"

text \<open>\<^verbatim>\<open>try { m } catch (error) { h error }\<close>\<close>

definition try_catch :: "'a comp \<Rightarrow> (js_exn \<Rightarrow> 'a comp) \<Rightarrow> 'a comp" where
  "try_catch m h =
     (case fst m of
        Inl e \<Rightarrow> (fst (h e), snd m @ snd (h e))
      | Inr v \<Rightarrow> (Inr v, snd m))"

text \<open>\<^verbatim>\<open>await this.k8sApi.<method>(<args>)\<close>\<close>

definition await_call :: "server \<Rightarrow> api_method \<Rightarrow> json list \<Rightarrow> json comp" where
  "await_call srv m args = (k8sApi srv m args, [(m, args)])"

subsection \<open>The result envelope\<close>

record content_item =
  type' :: string
  text' :: json

record envelope =
  content :: "content_item list"
  isError :: "bool option"

text \<open>\<^verbatim>\<open>{ content: [{ type: 'text', text: t }] }\<close>\<close>

definition success :: "json \<Rightarrow> envelope" where
  "success t = \<lparr>content = [\<lparr>type' = ''text'', text' = t\<rparr>], isError = None\<rparr>"

text \<open>\<^verbatim>\<open>{ content: [{ type: 'text', text: t }], isError: true }\<close>\<close>

definition failure :: "string \<Rightarrow> envelope" where
  "failure t = \<lparr>content = [\<lparr>type' = ''text'', text' = JStr t\<rparr>], isError = Some True\<rparr>"

text \<open>
  Modelled from the spec: the class \<^verbatim>\<open>McpError\<close> belongs to the protocol SDK, which is
  not part of the repository; its \<^verbatim>\<open>message\<close> is taken to be the message it is
  constructed with (the spec's \<^verbatim>\<open>Failure{"Unknown tool: <name>"}\<close>). With that,
  this is \<^verbatim>\<open>error instanceof Error ? error.message : String(error)\<close>.
\<close>

fun error_message :: "js_exn \<Rightarrow> string" where
  "error_message (JsError m) = m"
| "error_message (McpError c m) = m"
| "error_message (Thrown v) = js_String v"

subsection \<open>The operations\<close>

definition nl :: string where
  "nl = [CHR 0x0A]"

definition getClusterInfo :: "server \<Rightarrow> envelope comp" where
  "getClusterInfo srv =
     try_catch
       (bind (await_call srv core_getAPIResources []) (\<lambda>versionInfo.
        bind (lift (getCurrentContext (kc srv))) (\<lambda>currentContext.
        bind (lift (getCluster (kc srv) currentContext)) (\<lambda>cluster.
        bind (lift (get_prop versionInfo ''resources'')) (\<lambda>resources.
        bind (lift (get_prop versionInfo ''groupVersion'')) (\<lambda>groupVersion.
        ret (success (JSON_stringify (JObj
          [(''currentContext'', currentContext),
           (''clusterInfo'', cluster),
           (''apiResources'', resources),
           (''groupVersion'', groupVersion)])))))))))
       (\<lambda>error. ret (failure (''Error getting cluster info: '' @ error_message error)))"

text \<open>The callback of \<^verbatim>\<open>items.map\<close> in \<^verbatim>\<open>listPods\<close>.\<close>

definition project_pod :: "json \<Rightarrow> js_exn + json" where
  "project_pod pod =
     bind_e (chain2 pod ''metadata'' ''name'') (\<lambda>name.
     bind_e (chain2 pod ''metadata'' ''namespace'') (\<lambda>namespace.
     bind_e (chain2 pod ''status'' ''phase'') (\<lambda>status.
     bind_e (chain2 pod ''status'' ''podIP'') (\<lambda>ip.
     bind_e (chain2 pod ''spec'' ''nodeName'') (\<lambda>node.
     bind_e (chain2 pod ''metadata'' ''creationTimestamp'') (\<lambda>creationTimestamp.
     Inr (JObj
       [(''name'', name),
        (''namespace'', namespace),
        (''status'', status),
        (''ip'', ip),
        (''node'', node),
        (''creationTimestamp'', creationTimestamp)])))))))"

text \<open>
  The text of the inner \<^verbatim>\<open>catch\<close> of \<^verbatim>\<open>listPods\<close>, for the value of
  \<^verbatim>\<open>cluster?.server\<close>.
\<close>

definition unable_to_connect :: "json \<Rightarrow> string" where
  "unable_to_connect server =
     ''Unable to connect to the Kubernetes cluster at '' @ js_String server @ ''.'' @ nl @ nl
     @ ''This could be due to one of the following reasons:'' @ nl
     @ ''1. The cluster is not running or accessible from this environment'' @ nl
     @ ''2. The kubeconfig file is pointing to a cluster that's not available'' @ nl
     @ ''3. The cluster requires a proxy or VPN connection'' @ nl
     @ ''4. There might be network issues preventing the connection'' @ nl @ nl
     @ ''Please check your Kubernetes configuration and network connectivity.''"

text \<open>
  \<^verbatim>\<open>listPods\<close> calls \<^verbatim>\<open>listNamespacedPod(namespace)\<close> with the namespace alone. The
  \<^verbatim>\<open>console.error\<close> after the call evaluates \<^verbatim>\<open>Object.keys(response)\<close>, which
  throws on a nullish response. Every exception of the inner \<^verbatim>\<open>try\<close> block, the
  call's included, goes to the inner \<^verbatim>\<open>catch\<close>, which does not look at it.
\<close>

definition listPods :: "server \<Rightarrow> json \<Rightarrow> envelope comp" where
  "listPods srv args =
     try_catch
       (let namespace = js_or (opt_prop args ''namespace'') (JStr ''default'') in
        try_catch
          (bind (await_call srv core_listNamespacedPod [namespace]) (\<lambda>response.
           bind (lift (Object_keys response)) (\<lambda>keys.
           bind (lift (chain2 response ''body'' ''items'')) (\<lambda>body_items.
           let items = js_or body_items (JArr []) in
           bind (lift (array_map ''items'' project_pod items)) (\<lambda>pods.
           ret (success (JSON_stringify pods)))))))
          (\<lambda>connectionError.
           bind (lift (getCurrentContext (kc srv))) (\<lambda>currentContext.
           bind (lift (getCluster (kc srv) currentContext)) (\<lambda>cluster.
           ret (failure (unable_to_connect (opt_prop cluster ''server'')))))))
       (\<lambda>error. ret (failure (''Error listing pods: '' @ error_message error)))"

definition project_service :: "json \<Rightarrow> js_exn + json" where
  "project_service service =
     bind_e (chain2 service ''metadata'' ''name'') (\<lambda>name.
     bind_e (chain2 service ''metadata'' ''namespace'') (\<lambda>namespace.
     bind_e (chain2 service ''spec'' ''type'') (\<lambda>type.
     bind_e (chain2 service ''spec'' ''clusterIP'') (\<lambda>clusterIP.
     bind_e (chain2 service ''spec'' ''ports'') (\<lambda>ports.
     bind_e (chain2 service ''spec'' ''selector'') (\<lambda>selector.
     bind_e (chain2 service ''metadata'' ''creationTimestamp'') (\<lambda>creationTimestamp.
     Inr (JObj
       [(''name'', name),
        (''namespace'', namespace),
        (''type'', type),
        (''clusterIP'', clusterIP),
        (''ports'', ports),
        (''selector'', selector),
        (''creationTimestamp'', creationTimestamp)]))))))))"

text \<open>\<^verbatim>\<open>response.body.items.map(f)\<close>, as the other list operations have it.\<close>

definition body_items_map :: "(json \<Rightarrow> js_exn + json) \<Rightarrow> json \<Rightarrow> js_exn + json" where
  "body_items_map f response =
     bind_e (get_prop response ''body'') (\<lambda>body.
     bind_e (get_prop body ''items'') (\<lambda>items.
     array_map ''response.body.items'' f items))"

definition listServices :: "server \<Rightarrow> json \<Rightarrow> envelope comp" where
  "listServices srv args =
     (let namespace = js_or (opt_prop args ''namespace'') (JStr ''default'');
          labelSelector = opt_prop args ''labelSelector'' in
      try_catch
        (bind (await_call srv core_listNamespacedService [namespace, JUndefined, labelSelector])
           (\<lambda>response.
         bind (lift (body_items_map project_service response)) (\<lambda>services.
         ret (success (JSON_stringify services)))))
        (\<lambda>error. ret (failure (''Error listing services: '' @ error_message error))))"

definition project_deployment :: "json \<Rightarrow> js_exn + json" where
  "project_deployment deployment =
     bind_e (chain2 deployment ''metadata'' ''name'') (\<lambda>name.
     bind_e (chain2 deployment ''metadata'' ''namespace'') (\<lambda>namespace.
     bind_e (chain2 deployment ''spec'' ''replicas'') (\<lambda>desired.
     bind_e (chain2 deployment ''status'' ''availableReplicas'') (\<lambda>available.
     bind_e (chain2 deployment ''status'' ''readyReplicas'') (\<lambda>ready.
     bind_e (chain2 deployment ''spec'' ''selector'') (\<lambda>selector.
     bind_e (chain2 deployment ''metadata'' ''creationTimestamp'') (\<lambda>creationTimestamp.
     Inr (JObj
       [(''name'', name),
        (''namespace'', namespace),
        (''replicas'', JObj
           [(''desired'', desired),
            (''available'', available),
            (''ready'', ready)]),
        (''selector'', selector),
        (''creationTimestamp'', creationTimestamp)]))))))))"

definition listDeployments :: "server \<Rightarrow> json \<Rightarrow> envelope comp" where
  "listDeployments srv args =
     (let namespace = js_or (opt_prop args ''namespace'') (JStr ''default'');
          labelSelector = opt_prop args ''labelSelector'' in
      try_catch
        (bind (await_call srv apps_listNamespacedDeployment [namespace, JUndefined, labelSelector])
           (\<lambda>response.
         bind (lift (body_items_map project_deployment response)) (\<lambda>deployments.
         ret (success (JSON_stringify deployments)))))
        (\<lambda>error. ret (failure (''Error listing deployments: '' @ error_message error))))"

text \<open>
  The four describe operations on namespaced resources differ in the method they call
  and in two words of their messages: \<open>Kind\<close> is the word of the validation message
  (\<^verbatim>\<open>Pod\<close>, \<^verbatim>\<open>Service\<close>, \<^verbatim>\<open>Deployment\<close>, \<^verbatim>\<open>ConfigMap\<close>), \<open>kind\<close> the word of the
  \<^verbatim>\<open>catch\<close> message. The statements before the \<^verbatim>\<open>try\<close> are outside it.
\<close>

definition describeNamespaced ::
  "api_method \<Rightarrow> string \<Rightarrow> string \<Rightarrow> server \<Rightarrow> json \<Rightarrow> envelope comp" where
  "describeNamespaced method Kind kind srv args =
     (if \<not> truthy (opt_prop args ''name'')
      then ret (failure (''Error: '' @ Kind @ '' name is required''))
      else
        bind (lift (get_prop args ''namespace'')) (\<lambda>args_namespace.
        let namespace = js_or args_namespace (JStr ''default'') in
        try_catch
          (bind (lift (get_prop args ''name'')) (\<lambda>name.
           bind (await_call srv method [name, namespace]) (\<lambda>response.
           bind (lift (get_prop response ''body'')) (\<lambda>body.
           ret (success (JSON_stringify body))))))
          (\<lambda>error. ret (failure (''Error describing '' @ kind @ '': '' @ error_message error)))))"

definition describePod :: "server \<Rightarrow> json \<Rightarrow> envelope comp" where
  "describePod = describeNamespaced core_readNamespacedPod ''Pod'' ''pod''"

definition describeService :: "server \<Rightarrow> json \<Rightarrow> envelope comp" where
  "describeService = describeNamespaced core_readNamespacedService ''Service'' ''service''"

definition describeDeployment :: "server \<Rightarrow> json \<Rightarrow> envelope comp" where
  "describeDeployment =
     describeNamespaced apps_readNamespacedDeployment ''Deployment'' ''deployment''"

definition describeConfigMap :: "server \<Rightarrow> json \<Rightarrow> envelope comp" where
  "describeConfigMap =
     describeNamespaced core_readNamespacedConfigMap ''ConfigMap'' ''configmap''"

text \<open>\<^verbatim>\<open>getPodLogs\<close> returns the response itself as the text.\<close>

definition getPodLogs :: "server \<Rightarrow> json \<Rightarrow> envelope comp" where
  "getPodLogs srv args =
     (if \<not> truthy (opt_prop args ''name'')
      then ret (failure ''Error: Pod name is required'')
      else
        bind (lift (get_prop args ''namespace'')) (\<lambda>args_namespace.
        let namespace = js_or args_namespace (JStr ''default'') in
        bind (lift (get_prop args ''container'')) (\<lambda>container.
        bind (lift (get_prop args ''tailLines'')) (\<lambda>tailLines.
        try_catch
          (bind (lift (get_prop args ''name'')) (\<lambda>name.
           bind (await_call srv core_readNamespacedPodLog
                   [name, namespace, JObj [(''container'', container), (''tailLines'', tailLines)]])
             (\<lambda>response.
           ret (success response))))
          (\<lambda>error. ret (failure (''Error getting pod logs: '' @ error_message error)))))))"

text \<open>
  \<^verbatim>\<open>listNamespaces\<close> looks for the items in \<^verbatim>\<open>response.body.items\<close>, then in
  \<^verbatim>\<open>response.items\<close>, and returns the serialised response when it finds neither. (The
  \<^verbatim>\<open>console.error\<close> before the tests serialises the response, which does not throw on
  a JSON value.)
\<close>

definition project_namespace :: "json \<Rightarrow> js_exn + json" where
  "project_namespace ns =
     bind_e (chain2 ns ''metadata'' ''name'') (\<lambda>name.
     bind_e (chain2 ns ''status'' ''phase'') (\<lambda>status.
     bind_e (chain2 ns ''metadata'' ''creationTimestamp'') (\<lambda>creationTimestamp.
     Inr (JObj
       [(''name'', name),
        (''status'', status),
        (''creationTimestamp'', creationTimestamp)]))))"

definition namespaces_of :: "json \<Rightarrow> envelope comp" where
  "namespaces_of items =
     bind (lift (array_map ''items'' project_namespace items)) (\<lambda>namespaces.
     ret (success (JSON_stringify namespaces)))"

definition listNamespaces :: "server \<Rightarrow> envelope comp" where
  "listNamespaces srv =
     try_catch
       (bind (await_call srv core_listNamespace []) (\<lambda>response.
        if \<not> truthy response
        then ret (failure ''Error: No response from Kubernetes API'')
        else
          bind (lift (get_prop response ''body'')) (\<lambda>body.
          bind (lift (if truthy body then get_prop body ''items'' else Inr body)) (\<lambda>body_and_items.
          if truthy body_and_items
          then namespaces_of body_and_items
          else
            bind (lift (get_prop response ''items'')) (\<lambda>response_items.
            if truthy response_items
            then namespaces_of response_items
            else ret (success (JStr (''Raw response: '' @ js_String (JSON_stringify response)))))))))
       (\<lambda>error. ret (failure (''Error listing namespaces: '' @ error_message error)))"

definition role_prefix :: string where
  "role_prefix = ''node-role.kubernetes.io/''"

text \<open>The callback \<^verbatim>\<open>(c) => c.type === 'Ready'\<close>.\<close>

definition is_ready_condition :: "json \<Rightarrow> js_exn + bool" where
  "is_ready_condition c = bind_e (get_prop c ''type'') (\<lambda>t. Inr (t = JStr ''Ready''))"

definition project_node :: "json \<Rightarrow> js_exn + json" where
  "project_node node =
     bind_e (chain2 node ''metadata'' ''name'') (\<lambda>name.
     bind_e (chain2 node ''status'' ''conditions'') (\<lambda>conditions.
     bind_e (opt_find ''node.status?.conditions'' is_ready_condition conditions) (\<lambda>ready.
     let status = (if opt_prop ready ''status'' = JStr ''True''
                   then JStr ''Ready'' else JStr ''NotReady'') in
     bind_e (chain2 node ''metadata'' ''labels'') (\<lambda>labels.
     bind_e (Object_entries (js_or labels (JObj []))) (\<lambda>entries.
     let roles = JArr (map (\<lambda>(key, v). JStr (replace key role_prefix []))
                        (filter (\<lambda>(key, v). startsWith key role_prefix) entries)) in
     bind_e (chain3 node ''status'' ''nodeInfo'' ''kubeletVersion'') (\<lambda>version.
     bind_e (chain3 node ''status'' ''nodeInfo'' ''osImage'') (\<lambda>osImage.
     bind_e (chain3 node ''status'' ''nodeInfo'' ''kernelVersion'') (\<lambda>kernelVersion.
     bind_e (chain2 node ''metadata'' ''creationTimestamp'') (\<lambda>creationTimestamp.
     Inr (JObj
       [(''name'', name),
        (''status'', status),
        (''roles'', roles),
        (''version'', version),
        (''osImage'', osImage),
        (''kernelVersion'', kernelVersion),
        (''creationTimestamp'', creationTimestamp)]))))))))))"

definition listNodes :: "server \<Rightarrow> json \<Rightarrow> envelope comp" where
  "listNodes srv args =
     (let labelSelector = opt_prop args ''labelSelector'' in
      try_catch
        (bind (await_call srv core_listNode [JUndefined, labelSelector]) (\<lambda>response.
         bind (lift (body_items_map project_node response)) (\<lambda>nodes.
         ret (success (JSON_stringify nodes)))))
        (\<lambda>error. ret (failure (''Error listing nodes: '' @ error_message error))))"

definition describeNode :: "server \<Rightarrow> json \<Rightarrow> envelope comp" where
  "describeNode srv args =
     (if \<not> truthy (opt_prop args ''name'')
      then ret (failure ''Error: Node name is required'')
      else
        try_catch
          (bind (lift (get_prop args ''name'')) (\<lambda>name.
           bind (await_call srv core_readNode [name]) (\<lambda>response.
           bind (lift (get_prop response ''body'')) (\<lambda>body.
           ret (success (JSON_stringify body))))))
          (\<lambda>error. ret (failure (''Error describing node: '' @ error_message error))))"

definition project_configmap :: "json \<Rightarrow> js_exn + json" where
  "project_configmap cm =
     bind_e (chain2 cm ''metadata'' ''name'') (\<lambda>name.
     bind_e (chain2 cm ''metadata'' ''namespace'') (\<lambda>namespace.
     bind_e (get_prop cm ''data'') (\<lambda>data.
     bind_e (Object_keys (js_or data (JObj []))) (\<lambda>dataKeys.
     bind_e (chain2 cm ''metadata'' ''creationTimestamp'') (\<lambda>creationTimestamp.
     Inr (JObj
       [(''name'', name),
        (''namespace'', namespace),
        (''dataKeys'', JArr (map JStr dataKeys)),
        (''creationTimestamp'', creationTimestamp)]))))))"

definition listConfigMaps :: "server \<Rightarrow> json \<Rightarrow> envelope comp" where
  "listConfigMaps srv args =
     (let namespace = js_or (opt_prop args ''namespace'') (JStr ''default'');
          labelSelector = opt_prop args ''labelSelector'' in
      try_catch
        (bind (await_call srv core_listNamespacedConfigMap [namespace, JUndefined, labelSelector])
           (\<lambda>response.
         bind (lift (body_items_map project_configmap response)) (\<lambda>configMaps.
         ret (success (JSON_stringify configMaps)))))
        (\<lambda>error. ret (failure (''Error listing configmaps: '' @ error_message error))))"

subsection \<open>The request handlers\<close>

text \<open>\<^verbatim>\<open>ErrorCode.MethodNotFound\<close> of the SDK, the JSON-RPC code.\<close>

definition MethodNotFound :: int where
  "MethodNotFound = - 32601"

text \<open>
  The handler of \<^verbatim>\<open>CallToolRequestSchema\<close>, for \<^verbatim>\<open>request.params.name\<close> and
  \<^verbatim>\<open>request.params.arguments\<close>: the \<^verbatim>\<open>switch\<close> inside a \<^verbatim>\<open>try\<close>.
\<close>

definition dispatch :: "server \<Rightarrow> string \<Rightarrow> json \<Rightarrow> envelope comp" where
  "dispatch srv name arguments =
     (if name = ''get_cluster_info'' then getClusterInfo srv
      else if name = ''list_pods'' then listPods srv arguments
      else if name = ''list_services'' then listServices srv arguments
      else if name = ''list_deployments'' then listDeployments srv arguments
      else if name = ''describe_pod'' then describePod srv arguments
      else if name = ''describe_service'' then describeService srv arguments
      else if name = ''describe_deployment'' then describeDeployment srv arguments
      else if name = ''get_pod_logs'' then getPodLogs srv arguments
      else if name = ''list_namespaces'' then listNamespaces srv
      else if name = ''list_nodes'' then listNodes srv arguments
      else if name = ''describe_node'' then describeNode srv arguments
      else if name = ''list_configmaps'' then listConfigMaps srv arguments
      else if name = ''describe_configmap'' then describeConfigMap srv arguments
      else throw (McpError MethodNotFound (''Unknown tool: '' @ name)))"

definition CallTool :: "server \<Rightarrow> string \<Rightarrow> json \<Rightarrow> envelope comp" where
  "CallTool srv name arguments =
     try_catch (dispatch srv name arguments)
       (\<lambda>error. ret (failure (''Error: '' @ error_message error)))"

text \<open>
  The handler of \<^verbatim>\<open>ListToolsRequestSchema\<close> returns a literal: the catalog. An entry
  of \<open>properties\<close> is a field of the input schema with its type and description.
\<close>

record tool =
  name :: string
  description :: string
  properties :: "(string \<times> string \<times> string) list"
  required :: "string list"

definition ListTools :: "tool list" where
  "ListTools =
     [\<lparr>name = ''get_cluster_info'',
        description = ''Get information about the current Kubernetes cluster'',
        properties = [],
        required = []\<rparr>,
      \<lparr>name = ''list_pods'',
        description = ''List pods in a namespace'',
        properties = 
          [(''namespace'', ''string'', ''Kubernetes namespace (default: \"default\")''),
           (''labelSelector'', ''string'', ''Label selector to filter pods (e.g. \"app=nginx\")'')],
        required = []\<rparr>,
      \<lparr>name = ''list_services'',
        description = ''List services in a namespace'',
        properties = 
          [(''namespace'', ''string'', ''Kubernetes namespace (default: \"default\")''),
           (''labelSelector'', ''string'', ''Label selector to filter services (e.g. \"app=nginx\")'')],
        required = []\<rparr>,
      \<lparr>name = ''list_deployments'',
        description = ''List deployments in a namespace'',
        properties = 
          [(''namespace'', ''string'', ''Kubernetes namespace (default: \"default\")''),
           (''labelSelector'', ''string'', ''Label selector to filter deployments (e.g. \"app=nginx\")'')],
        required = []\<rparr>,
      \<lparr>name = ''describe_pod'',
        description = ''Get detailed information about a pod'',
        properties = 
          [(''name'', ''string'', ''Pod name''),
           (''namespace'', ''string'', ''Kubernetes namespace (default: \"default\")'')],
        required = [''name'']\<rparr>,
      \<lparr>name = ''describe_service'',
        description = ''Get detailed information about a service'',
        properties = 
          [(''name'', ''string'', ''Service name''),
           (''namespace'', ''string'', ''Kubernetes namespace (default: \"default\")'')],
        required = [''name'']\<rparr>,
      \<lparr>name = ''describe_deployment'',
        description = ''Get detailed information about a deployment'',
        properties = 
          [(''name'', ''string'', ''Deployment name''),
           (''namespace'', ''string'', ''Kubernetes namespace (default: \"default\")'')],
        required = [''name'']\<rparr>,
      \<lparr>name = ''get_pod_logs'',
        description = ''Get logs from a pod'',
        properties = 
          [(''name'', ''string'', ''Pod name''),
           (''namespace'', ''string'', ''Kubernetes namespace (default: \"default\")''),
           (''container'', ''string'', ''Container name (if pod has multiple containers)''),
           (''tailLines'', ''number'', ''Number of lines to return from the end of the logs'')],
        required = [''name'']\<rparr>,
      \<lparr>name = ''list_namespaces'',
        description = ''List all namespaces in the cluster'',
        properties = [],
        required = []\<rparr>,
      \<lparr>name = ''list_nodes'',
        description = ''List all nodes in the cluster'',
        properties = 
          [(''labelSelector'', ''string'', ''Label selector to filter nodes (e.g. \"kubernetes.io/role=master\")'')],
        required = []\<rparr>,
      \<lparr>name = ''describe_node'',
        description = ''Get detailed information about a node'',
        properties = 
          [(''name'', ''string'', ''Node name'')],
        required = [''name'']\<rparr>,
      \<lparr>name = ''list_configmaps'',
        description = ''List configmaps in a namespace'',
        properties = 
          [(''namespace'', ''string'', ''Kubernetes namespace (default: \"default\")''),
           (''labelSelector'', ''string'', ''Label selector to filter configmaps'')],
        required = []\<rparr>,
      \<lparr>name = ''describe_configmap'',
        description = ''Get detailed information about a configmap'',
        properties = 
          [(''name'', ''string'', ''ConfigMap name''),
           (''namespace'', ''string'', ''Kubernetes namespace (default: \"default\")'')],
        required = [''name'']\<rparr>]"

text \<open>
  The server as the transport sees it: one request after the other, each answered by its
  handler on the server object. The handlers read \<^verbatim>\<open>this.k8sApi\<close> and \<^verbatim>\<open>this.kc\<close> and
  assign to no field, so the object after a request is the object before it. An
  exception that leaves a handler is the response \<open>Uncaught\<close>.
\<close>

datatype request = ListToolsRequest | CallToolRequest string json

datatype response = Tools "tool list" | Result envelope | Uncaught js_exn

definition handle :: "server \<Rightarrow> request \<Rightarrow> server \<times> response \<times> api_call list" where
  "handle srv req =
     (case req of
        ListToolsRequest \<Rightarrow> (srv, Tools ListTools, [])
      | CallToolRequest n arguments \<Rightarrow>
          (case CallTool srv n arguments of
             (Inl e, calls) \<Rightarrow> (srv, Uncaught e, calls)
           | (Inr r, calls) \<Rightarrow> (srv, Result r, calls)))"

fun run :: "server \<Rightarrow> request list \<Rightarrow> server \<times> (response \<times> api_call list) list" where
  "run srv [] = (srv, [])"
| "run srv (req # reqs) =
     (case handle srv req of
        (srv', out) \<Rightarrow> (case run srv' reqs of (srv'', outs) \<Rightarrow> (srv'', out # outs)))"

section \<open>Example servers and responses\<close>

text \<open>
  A stub cluster client that answers every call with the same response or exception,
  beside a \<^verbatim>\<open>KubeConfig\<close> with one context; a response with two pods.
\<close>

definition stub_kc :: kube_config where
  "stub_kc =
     \<lparr>getCurrentContext = Inr (JStr ''minikube''),
      getCluster = (\<lambda>context. Inr (JObj [(''name'', JStr ''minikube''),
                                          (''server'', JStr ''https://192.168.49.2:8443'')]))\<rparr>"

definition stub_server :: "(js_exn + json) \<Rightarrow> server" where
  "stub_server answer = \<lparr>kc = stub_kc, k8sApi = (\<lambda>method args. answer)\<rparr>"

definition two_pods :: json where
  "two_pods = JObj [(''body'', JObj [(''items'', JArr
     [JObj [(''metadata'', JObj [(''name'', JStr ''web-0''), (''namespace'', JStr ''default'')]),
            (''status'', JObj [(''phase'', JStr ''Running''), (''podIP'', JStr ''10.0.0.7'')]),
            (''spec'', JObj [(''nodeName'', JStr ''minikube'')])],
      JObj [(''metadata'', JObj [(''name'', JStr ''web-1'')])]])])]"

text \<open>
  An answer of the shape that the other operations read: the payload under \<^verbatim>\<open>body\<close>,
  beside the HTTP response.
\<close>

definition wrapped_log :: json where
  "wrapped_log = JObj [(''response'', JObj [(''statusCode'', JNum 200)]),
                       (''body'', JStr (''line 1'' @ nl @ ''line 2''))]"

text \<open>A node with two conditions of type \<^verbatim>\<open>Ready\<close>, the first \<^verbatim>\<open>False\<close>.\<close>

definition two_ready_node :: json where
  "two_ready_node = JObj
     [(''metadata'', JObj [(''name'', JStr ''node-1''),
                           (''labels'', JObj [(''kubernetes.io/hostname'', JStr ''node-1''),
                                              (''node-role.kubernetes.io/control-plane'', JStr [])])]),
      (''status'', JObj [(''conditions'', JArr
         [JObj [(''type'', JStr ''Ready''), (''status'', JStr ''False'')],
          JObj [(''type'', JStr ''Ready''), (''status'', JStr ''True'')]])])]"

text \<open>
  Two upstream results differ only in the values of configmap data when they are equal
  once every value of every \<^verbatim>\<open>data\<close> object of \<^verbatim>\<open>body.items\<close> is blanked:
  \<open>map_prop k f\<close> applies \<open>f\<close> to the property \<open>k\<close> of an object, \<open>map_items f\<close> to the
  elements of an array, \<open>blank_values\<close> replaces the values of an object by \<^verbatim>\<open>null\<close>.
\<close>

definition blank_values :: "json \<Rightarrow> json" where
  "blank_values v = (case v of JObj kvs \<Rightarrow> JObj (map (\<lambda>(k, x). (k, JNull)) kvs) | _ \<Rightarrow> v)"

definition map_prop :: "string \<Rightarrow> (json \<Rightarrow> json) \<Rightarrow> json \<Rightarrow> json" where
  "map_prop k f v =
     (case v of JObj kvs \<Rightarrow> JObj (map (\<lambda>(k', x). (k', if k' = k then f x else x)) kvs) | _ \<Rightarrow> v)"

definition map_items :: "(json \<Rightarrow> json) \<Rightarrow> json \<Rightarrow> json" where
  "map_items f v = (case v of JArr xs \<Rightarrow> JArr (map f xs) | _ \<Rightarrow> v)"

definition blank_data_values :: "json \<Rightarrow> json" where
  "blank_data_values response =
     map_prop ''body'' (map_prop ''items'' (map_items (map_prop ''data'' blank_values))) response"

definition two_configmaps :: "string \<Rightarrow> string \<Rightarrow> json" where
  "two_configmaps password url = JObj [(''body'', JObj [(''items'', JArr
     [JObj [(''metadata'', JObj [(''name'', JStr ''app-config''), (''namespace'', JStr ''default'')]),
            (''data'', JObj [(''DB_PASSWORD'', JStr password), (''DB_URL'', JStr url)])],
      JObj [(''metadata'', JObj [(''name'', JStr ''empty'')])]])])]"

text \<open>
  The failure envelope: \<^verbatim>\<open>isError: true\<close> beside one text entry that is a non-empty
  string. An upstream failure: one of the calls made was answered by an exception.
\<close>

abbreviation error_envelope :: "envelope \<Rightarrow> bool" where
  "error_envelope env \<equiv>
     isError env = Some True
     \<and> (\<exists>t. t \<noteq> [] \<and> content env = [\<lparr>type' = ''text'', text' = JStr t\<rparr>])"

abbreviation upstream_failed :: "server \<Rightarrow> api_call list \<Rightarrow> bool" where
  "upstream_failed srv calls \<equiv> \<exists>c\<in>set calls. \<exists>e. k8sApi srv (fst c) (snd c) = Inl e"

section \<open>Basic facts\<close>

lemmas comp_defs = try_catch_def bind_def lift_def ret_def throw_def await_call_def

lemma snd_try_catch_ret: "snd (try_catch m (\<lambda>e. ret (p e))) = snd m"
  by (simp add: try_catch_def ret_def split: sum.splits)

lemma get_prop_not_nullish: "\<not> nullish v \<Longrightarrow> get_prop v k = Inr (lookup_prop v k)"
  by (simp add: get_prop_def)

lemma truthy_not_nullish: "truthy v \<Longrightarrow> \<not> nullish v"
  by (cases v) auto

lemma truthy_opt_prop: "truthy (opt_prop v k) \<Longrightarrow> \<not> nullish v"
  by (auto simp: opt_prop_def)

lemma opt_prop_lookup: "\<not> nullish v \<Longrightarrow> opt_prop v k = lookup_prop v k"
  by (simp add: opt_prop_def)

lemma opt_prop_lookup_JArr: "opt_prop (lookup_prop v a) b = JArr xs \<Longrightarrow> \<not> nullish v"
  by (cases v) (simp_all add: opt_prop_def)

lemma chain2_not_nullish: "\<not> nullish v \<Longrightarrow> chain2 v a b = Inr (opt_prop (lookup_prop v a) b)"
  by (simp add: chain2_def bind_e_def get_prop_def)

lemma chain3_not_nullish:
  "\<not> nullish v \<Longrightarrow> chain3 v a b c = Inr (opt_prop (opt_prop (lookup_prop v a) b) c)"
  by (simp add: chain3_def bind_e_def get_prop_def)

lemma mapM_all_Inr: "(\<And>x. x \<in> set xs \<Longrightarrow> f x = Inr (g x)) \<Longrightarrow> mapM f xs = Inr (map g xs)"
  by (induction xs) simp_all

lemma Object_keys_not_nullish: "\<not> nullish v \<Longrightarrow> \<exists>ks. Object_keys v = Inr ks"
  by (cases v) (simp_all add: Object_keys_def bind_e_def)

lemma stringify_defined: "v \<noteq> JUndefined \<Longrightarrow> \<exists>s. stringify ind v = Some s"
  by (cases v) (simp_all add: Let_def)

section \<open>Validation of the name argument\<close>

text \<open>
  Claim C3. An invocation of \<^verbatim>\<open>describe_pod\<close>, \<^verbatim>\<open>describe_service\<close>,
  \<^verbatim>\<open>describe_deployment\<close>, \<^verbatim>\<open>describe_configmap\<close>, \<^verbatim>\<open>describe_node\<close> or
  \<^verbatim>\<open>get_pod_logs\<close> whose arguments have no \<^verbatim>\<open>name\<close> (the field is missing, or there is
  no argument object at all) or an empty one is answered by the failure that says the
  name is required, and makes no upstream call: the list of calls is empty.
\<close>

theorem name_required:
  assumes "opt_prop args ''name'' = JUndefined \<or> opt_prop args ''name'' = JStr []"
  shows "CallTool srv ''describe_pod'' args =
           (Inr (failure ''Error: Pod name is required''), [])
       \<and> CallTool srv ''describe_service'' args =
           (Inr (failure ''Error: Service name is required''), [])
       \<and> CallTool srv ''describe_deployment'' args =
           (Inr (failure ''Error: Deployment name is required''), [])
       \<and> CallTool srv ''describe_configmap'' args =
           (Inr (failure ''Error: ConfigMap name is required''), [])
       \<and> CallTool srv ''describe_node'' args =
           (Inr (failure ''Error: Node name is required''), [])
       \<and> CallTool srv ''get_pod_logs'' args =
           (Inr (failure ''Error: Pod name is required''), [])"
proof -
  from assms have falsy: "\<not> truthy (opt_prop args ''name'')" by auto
  then show ?thesis
    by (simp add: CallTool_def dispatch_def describePod_def describeService_def
        describeDeployment_def describeConfigMap_def describeNamespaced_def describeNode_def
        getPodLogs_def try_catch_def ret_def)
qed

theorem name_required_witness:
  "CallTool (stub_server (Inr JNull)) ''describe_pod'' (JObj [(''namespace'', JStr ''kube-system'')]) =
     (Inr (failure ''Error: Pod name is required''), [])
   \<and> CallTool (stub_server (Inr JNull)) ''describe_node'' (JObj [(''namespace'', JStr ''kube-system'')]) =
     (Inr (failure ''Error: Node name is required''), [])"
  using name_required [of "JObj [(''namespace'', JStr ''kube-system'')]" "stub_server (Inr JNull)"]
  by (simp add: opt_prop_def)

section \<open>The default namespace\<close>

text \<open>
  Claim C6. When the arguments of \<^verbatim>\<open>list_pods\<close>, \<^verbatim>\<open>list_services\<close>,
  \<^verbatim>\<open>list_deployments\<close> or \<^verbatim>\<open>list_configmaps\<close> have no \<^verbatim>\<open>namespace\<close>, the one
  upstream call of the invocation is the list call with the namespace \<^verbatim>\<open>"default"\<close>.
  The same holds for the read call of \<^verbatim>\<open>describe_pod\<close>, \<^verbatim>\<open>describe_service\<close>,
  \<^verbatim>\<open>describe_deployment\<close>, \<^verbatim>\<open>describe_configmap\<close> and \<^verbatim>\<open>get_pod_logs\<close>, which
  is made when there is a name.
\<close>

theorem default_namespace:
  assumes "opt_prop args ''namespace'' = JUndefined"
  shows "snd (CallTool srv ''list_pods'' args) = [(core_listNamespacedPod, [JStr ''default''])]
       \<and> snd (CallTool srv ''list_services'' args) =
           [(core_listNamespacedService,
             [JStr ''default'', JUndefined, opt_prop args ''labelSelector''])]
       \<and> snd (CallTool srv ''list_deployments'' args) =
           [(apps_listNamespacedDeployment,
             [JStr ''default'', JUndefined, opt_prop args ''labelSelector''])]
       \<and> snd (CallTool srv ''list_configmaps'' args) =
           [(core_listNamespacedConfigMap,
             [JStr ''default'', JUndefined, opt_prop args ''labelSelector''])]
       \<and> (truthy (opt_prop args ''name'') \<longrightarrow>
            snd (CallTool srv ''describe_pod'' args) =
              [(core_readNamespacedPod, [opt_prop args ''name'', JStr ''default''])]
          \<and> snd (CallTool srv ''describe_service'' args) =
              [(core_readNamespacedService, [opt_prop args ''name'', JStr ''default''])]
          \<and> snd (CallTool srv ''describe_deployment'' args) =
              [(apps_readNamespacedDeployment, [opt_prop args ''name'', JStr ''default''])]
          \<and> snd (CallTool srv ''describe_configmap'' args) =
              [(core_readNamespacedConfigMap, [opt_prop args ''name'', JStr ''default''])]
          \<and> snd (CallTool srv ''get_pod_logs'' args) =
              [(core_readNamespacedPodLog,
                [opt_prop args ''name'', JStr ''default'',
                 JObj [(''container'', opt_prop args ''container''),
                       (''tailLines'', opt_prop args ''tailLines'')]])])"
proof -
  have calls_pods: "snd (listPods srv args) = [(core_listNamespacedPod, [JStr ''default''])]"
    using assms
    by (simp add: listPods_def js_or_def Let_def comp_defs split: sum.splits)
  have calls_list:
    "snd (listServices srv args) =
       [(core_listNamespacedService, [JStr ''default'', JUndefined, opt_prop args ''labelSelector''])]"
    "snd (listDeployments srv args) =
       [(apps_listNamespacedDeployment, [JStr ''default'', JUndefined, opt_prop args ''labelSelector''])]"
    "snd (listConfigMaps srv args) =
       [(core_listNamespacedConfigMap, [JStr ''default'', JUndefined, opt_prop args ''labelSelector''])]"
    using assms
    by (simp_all add: listServices_def listDeployments_def listConfigMaps_def js_or_def Let_def
        comp_defs split: sum.splits)
  have calls_describe:
    "snd (describeNamespaced m K k srv args) = [(m, [opt_prop args ''name'', JStr ''default''])]"
    if "truthy (opt_prop args ''name'')" for m K k
    using assms that truthy_opt_prop [OF that]
    by (simp add: describeNamespaced_def js_or_def Let_def comp_defs
        get_prop_not_nullish opt_prop_lookup [symmetric] split: sum.splits)
  have calls_logs:
    "snd (getPodLogs srv args) =
       [(core_readNamespacedPodLog,
         [opt_prop args ''name'', JStr ''default'',
          JObj [(''container'', opt_prop args ''container''),
                (''tailLines'', opt_prop args ''tailLines'')]])]"
    if "truthy (opt_prop args ''name'')"
    using assms that truthy_opt_prop [OF that]
    by (simp add: getPodLogs_def js_or_def Let_def comp_defs
        get_prop_not_nullish opt_prop_lookup [symmetric] split: sum.splits)
  show ?thesis
    by (simp add: CallTool_def dispatch_def snd_try_catch_ret calls_pods calls_list
        calls_describe calls_logs describePod_def describeService_def describeDeployment_def
        describeConfigMap_def)
qed

theorem default_namespace_witness:
  "snd (CallTool (stub_server (Inl (JsError ''boom''))) ''list_services''
          (JObj [(''labelSelector'', JStr ''app=nginx'')])) =
     [(core_listNamespacedService, [JStr ''default'', JUndefined, JStr ''app=nginx''])]
   \<and> snd (CallTool (stub_server (Inl (JsError ''boom''))) ''describe_pod''
          (JObj [(''name'', JStr ''web-0'')])) =
     [(core_readNamespacedPod, [JStr ''web-0'', JStr ''default''])]"
  using default_namespace [of "JObj [(''labelSelector'', JStr ''app=nginx'')]"
      "stub_server (Inl (JsError ''boom''))"]
    default_namespace [of "JObj [(''name'', JStr ''web-0'')]"
      "stub_server (Inl (JsError ''boom''))"]
  by (simp add: opt_prop_def)

section \<open>The label selector\<close>

text \<open>
  Claim C7. The claim is that \<^verbatim>\<open>list_pods\<close> passes a supplied \<^verbatim>\<open>labelSelector\<close> to the
  upstream call, as \<^verbatim>\<open>list_services\<close>, \<^verbatim>\<open>list_deployments\<close> and \<^verbatim>\<open>list_configmaps\<close>
  do. At the arguments \<^verbatim>\<open>{labelSelector: "app=nginx"}\<close> the call of \<^verbatim>\<open>list_pods\<close> is
  \<^verbatim>\<open>listNamespacedPod("default")\<close>, without the selector, whereas \<^verbatim>\<open>list_services\<close>
  passes it on: the code of \<^verbatim>\<open>listPods\<close> never reads the argument that its schema
  declares.
\<close>

theorem list_pods_ignores_labelSelector:
  "snd (CallTool srv ''list_pods'' (JObj [(''labelSelector'', JStr ''app=nginx'')])) =
     [(core_listNamespacedPod, [JStr ''default''])]
   \<and> snd (CallTool srv ''list_services'' (JObj [(''labelSelector'', JStr ''app=nginx'')])) =
     [(core_listNamespacedService, [JStr ''default'', JUndefined, JStr ''app=nginx''])]"
  by (simp add: CallTool_def dispatch_def listPods_def listServices_def js_or_def opt_prop_def
      Let_def comp_defs split: sum.splits)

section \<open>Upstream failures\<close>

text \<open>No operation makes a second upstream call.\<close>

lemma one_call_list:
  "length (snd (getClusterInfo srv)) \<le> 1"
  "length (snd (listPods srv args)) \<le> 1"
  "length (snd (listServices srv args)) \<le> 1"
  "length (snd (listDeployments srv args)) \<le> 1"
  "length (snd (listNamespaces srv)) \<le> 1"
  "length (snd (listNodes srv args)) \<le> 1"
  "length (snd (listConfigMaps srv args)) \<le> 1"
  by (simp_all add: getClusterInfo_def listPods_def listServices_def listDeployments_def
      listNamespaces_def namespaces_of_def listNodes_def listConfigMaps_def Let_def comp_defs
      split: sum.splits)

lemma one_call_describe:
  "length (snd (describeNamespaced m K k srv args)) \<le> 1"
  "length (snd (describeNode srv args)) \<le> 1"
  "length (snd (getPodLogs srv args)) \<le> 1"
  by (simp_all add: describeNamespaced_def describeNode_def getPodLogs_def Let_def comp_defs
      split: sum.splits)

lemma at_most_one_upstream_call: "length (snd (CallTool srv n args)) \<le> 1"
  using one_call_list one_call_describe
  by (simp add: CallTool_def snd_try_catch_ret dispatch_def
      describePod_def describeService_def describeDeployment_def describeConfigMap_def throw_def)

text \<open>
  The other twelve operations put the message of the upstream exception into their
  failure text.
\<close>

lemma siblings_report_upstream_message:
  "fst (CallTool (stub_server (Inl e)) ''get_cluster_info'' args) =
     Inr (failure (''Error getting cluster info: '' @ error_message e))"
  "fst (CallTool (stub_server (Inl e)) ''list_services'' args) =
     Inr (failure (''Error listing services: '' @ error_message e))"
  "fst (CallTool (stub_server (Inl e)) ''list_deployments'' args) =
     Inr (failure (''Error listing deployments: '' @ error_message e))"
  "fst (CallTool (stub_server (Inl e)) ''list_namespaces'' args) =
     Inr (failure (''Error listing namespaces: '' @ error_message e))"
  "fst (CallTool (stub_server (Inl e)) ''list_nodes'' args) =
     Inr (failure (''Error listing nodes: '' @ error_message e))"
  "fst (CallTool (stub_server (Inl e)) ''list_configmaps'' args) =
     Inr (failure (''Error listing configmaps: '' @ error_message e))"
  by (simp_all add: CallTool_def dispatch_def getClusterInfo_def listServices_def
      listDeployments_def listNamespaces_def listNodes_def listConfigMaps_def Let_def comp_defs
      stub_server_def)

lemma siblings_with_name_report_upstream_message:
  assumes "truthy (opt_prop args ''name'')"
  shows "fst (CallTool (stub_server (Inl e)) ''describe_pod'' args) =
     Inr (failure (''Error describing pod: '' @ error_message e))"
  "fst (CallTool (stub_server (Inl e)) ''describe_service'' args) =
     Inr (failure (''Error describing service: '' @ error_message e))"
  "fst (CallTool (stub_server (Inl e)) ''describe_deployment'' args) =
     Inr (failure (''Error describing deployment: '' @ error_message e))"
  "fst (CallTool (stub_server (Inl e)) ''describe_configmap'' args) =
     Inr (failure (''Error describing configmap: '' @ error_message e))"
  "fst (CallTool (stub_server (Inl e)) ''describe_node'' args) =
     Inr (failure (''Error describing node: '' @ error_message e))"
  "fst (CallTool (stub_server (Inl e)) ''get_pod_logs'' args) =
     Inr (failure (''Error getting pod logs: '' @ error_message e))"
  using assms truthy_opt_prop [OF assms]
  by (simp_all add: CallTool_def dispatch_def describePod_def describeService_def
      describeDeployment_def describeConfigMap_def describeNamespaced_def describeNode_def
      getPodLogs_def Let_def comp_defs stub_server_def get_prop_not_nullish)

text \<open>
  Claim C8. The claim is that the failure message of every operation includes the text
  of the upstream exception. For \<^verbatim>\<open>list_pods\<close> it does not: whatever exception \<open>e\<close>
  the upstream call raises, a rejection included, the inner \<^verbatim>\<open>catch\<close> answers with the
  same connectivity hint, in which only the server address of the cluster varies. The
  sibling \<^verbatim>\<open>list_services\<close> reports the message of \<open>e\<close>, as the other operations
  do. Both make one call.
\<close>

theorem list_pods_hides_upstream_message:
  "CallTool (stub_server (Inl e)) ''list_pods'' (JObj []) =
     (Inr (failure (unable_to_connect (JStr ''https://192.168.49.2:8443''))),
      [(core_listNamespacedPod, [JStr ''default''])])
   \<and> CallTool (stub_server (Inl e)) ''list_services'' (JObj []) =
     (Inr (failure (''Error listing services: '' @ error_message e)),
      [(core_listNamespacedService, [JStr ''default'', JUndefined, JUndefined])])"
  by (simp add: CallTool_def dispatch_def listPods_def listServices_def js_or_def opt_prop_def
      Let_def comp_defs stub_server_def stub_kc_def)

section \<open>Pod logs\<close>

text \<open>
  An invocation of \<^verbatim>\<open>get_pod_logs\<close> succeeds exactly when there is a name and the
  upstream call returns; the text of the envelope is then the value that the call
  returned, whatever its shape.
\<close>

lemma get_pod_logs_success:
  "(fst (CallTool srv ''get_pod_logs'' args) = Inr env \<and> isError env = None) \<longleftrightarrow>
   (truthy (opt_prop args ''name'') \<and>
    (\<exists>log. k8sApi srv core_readNamespacedPodLog
              [opt_prop args ''name'',
               js_or (opt_prop args ''namespace'') (JStr ''default''),
               JObj [(''container'', opt_prop args ''container''),
                     (''tailLines'', opt_prop args ''tailLines'')]] = Inr log
          \<and> env = \<lparr>content = [\<lparr>type' = ''text'', text' = log\<rparr>], isError = None\<rparr>))"
proof (cases "truthy (opt_prop args ''name'')")
  case False
  then show ?thesis
    by (auto simp add: CallTool_def dispatch_def getPodLogs_def comp_defs failure_def)
next
  case True
  then have nn: "\<not> nullish args" by (rule truthy_opt_prop)
  show ?thesis using True nn
    by (auto simp add: CallTool_def dispatch_def getPodLogs_def comp_defs failure_def success_def
        get_prop_not_nullish opt_prop_lookup Let_def split: sum.splits)
qed

text \<open>
  Claim C9. The claim is that the text of a successful \<^verbatim>\<open>get_pod_logs\<close> is the raw
  upstream log string. \<^verbatim>\<open>getPodLogs\<close> puts the answer of the client call itself into
  the envelope, where every other operation reads the payload of the answer from
  \<^verbatim>\<open>body\<close>. At an answer of that shape, with the log under \<^verbatim>\<open>body\<close>, the text of
  \<^verbatim>\<open>get_pod_logs\<close> is the whole answer object and not the log string, whereas
  \<^verbatim>\<open>describe_pod\<close> on the same answer serialises its \<^verbatim>\<open>body\<close>.
\<close>

theorem pod_logs_returns_wrapper:
  "CallTool (stub_server (Inr wrapped_log)) ''get_pod_logs'' (JObj [(''name'', JStr ''web-0'')]) =
     (Inr (success (JObj [(''response'', JObj [(''statusCode'', JNum 200)]),
                          (''body'', JStr (''line 1'' @ nl @ ''line 2''))])),
      [(core_readNamespacedPodLog,
        [JStr ''web-0'', JStr ''default'',
         JObj [(''container'', JUndefined), (''tailLines'', JUndefined)]])])
   \<and> fst (CallTool (stub_server (Inr wrapped_log)) ''describe_pod''
            (JObj [(''name'', JStr ''web-0'')])) =
     Inr (success (JSON_stringify (JStr (''line 1'' @ nl @ ''line 2''))))"
  by (simp add: CallTool_def dispatch_def getPodLogs_def describePod_def describeNamespaced_def
      comp_defs opt_prop_def get_prop_def js_or_def Let_def stub_server_def wrapped_log_def)

section \<open>The raw response of list\_namespaces\<close>

text \<open>
  Claim C10, as stated, for every upstream response that is not \<^verbatim>\<open>null\<close> and has neither
  \<^verbatim>\<open>body.items\<close> nor \<^verbatim>\<open>items\<close>: the empty string is such a response, and
  \<^verbatim>\<open>list_namespaces\<close> answers it with the failure \<^verbatim>\<open>Error: No response from Kubernetes
  API\<close>, since the test of the code is \<^verbatim>\<open>!response\<close>.
\<close>

theorem raw_response_counterexample:
  "JStr [] \<noteq> JNull
   \<and> opt_prop (lookup_prop (JStr []) ''body'') ''items'' = JUndefined
   \<and> lookup_prop (JStr []) ''items'' = JUndefined
   \<and> CallTool (stub_server (Inr (JStr []))) ''list_namespaces'' JUndefined =
       (Inr (failure ''Error: No response from Kubernetes API''), [(core_listNamespace, [])])"
  by (simp add: CallTool_def dispatch_def listNamespaces_def comp_defs stub_server_def
      opt_prop_def)

text \<open>
  Claim C10, amended: when the upstream response is truthy (not \<^verbatim>\<open>null\<close>,
  \<^verbatim>\<open>undefined\<close>, \<^verbatim>\<open>false\<close>, \<^verbatim>\<open>0\<close> or the empty string) and has neither \<^verbatim>\<open>body.items\<close>
  nor \<^verbatim>\<open>items\<close>, the result of \<^verbatim>\<open>list_namespaces\<close> is a success whose text is
  \<^verbatim>\<open>Raw response: \<close> followed by the serialisation of the response.
\<close>

theorem raw_response:
  assumes "k8sApi srv core_listNamespace [] = Inr response"
    and "truthy response"
    and "opt_prop (lookup_prop response ''body'') ''items'' = JUndefined"
    and "lookup_prop response ''items'' = JUndefined"
  shows "\<exists>s. stringify [] response = Some s
           \<and> CallTool srv ''list_namespaces'' args =
               (Inr (success (JStr (''Raw response: '' @ s))), [(core_listNamespace, [])])"
proof -
  from assms(2) have "response \<noteq> JUndefined" by auto
  then obtain s where s: "stringify [] response = Some s"
    using stringify_defined by blast
  have nn: "\<not> nullish response" using assms(2) by (rule truthy_not_nullish)
  have body: "truthy (lookup_prop response ''body'') \<Longrightarrow>
      get_prop (lookup_prop response ''body'') ''items'' = Inr JUndefined"
    using assms(3) by (simp add: get_prop_def opt_prop_def truthy_not_nullish)
  have "CallTool srv ''list_namespaces'' args =
          (Inr (success (JStr (''Raw response: '' @ s))), [(core_listNamespace, [])])"
    using assms nn s body
    by (simp add: CallTool_def dispatch_def listNamespaces_def comp_defs get_prop_not_nullish
        JSON_stringify_def)
  with s show ?thesis by blast
qed

theorem raw_response_witness:
  "CallTool (stub_server (Inr (JObj [(''kind'', JStr ''Status''), (''code'', JNum 7)])))
     ''list_namespaces'' JUndefined =
     (Inr (success (JStr (''Raw response: {'' @ nl @ ''  \"kind\": \"Status\",'' @ nl
                          @ ''  \"code\": 7'' @ nl @ ''}''))),
      [(core_listNamespace, [])])"
  using raw_response [of "stub_server (Inr (JObj [(''kind'', JStr ''Status''), (''code'', JNum 7)]))"
      "JObj [(''kind'', JStr ''Status''), (''code'', JNum 7)]" JUndefined]
  by (simp add: stub_server_def opt_prop_def quote_def quote_char_def show_int_def
      show_nat.simps nl_def)

section \<open>The projection of list\_pods\<close>

lemma project_pod_not_nullish:
  "\<not> nullish pod \<Longrightarrow> project_pod pod = Inr (JObj
       [(''name'', opt_prop (lookup_prop pod ''metadata'') ''name''),
        (''namespace'', opt_prop (lookup_prop pod ''metadata'') ''namespace''),
        (''status'', opt_prop (lookup_prop pod ''status'') ''phase''),
        (''ip'', opt_prop (lookup_prop pod ''status'') ''podIP''),
        (''node'', opt_prop (lookup_prop pod ''spec'') ''nodeName''),
        (''creationTimestamp'', opt_prop (lookup_prop pod ''metadata'') ''creationTimestamp'')])"
  by (simp add: project_pod_def chain2_not_nullish bind_e_def)

text \<open>
  Claim C2. When the upstream call of \<^verbatim>\<open>list_pods\<close> returns a response whose
  \<^verbatim>\<open>body.items\<close> is an array of \<open>N\<close> pod objects, the result is a success whose text is
  the serialisation of an array of \<open>N\<close> objects, the \<open>i\<close>-th of which has exactly the keys
  \<^verbatim>\<open>name\<close>, \<^verbatim>\<open>namespace\<close>, \<^verbatim>\<open>status\<close>, \<^verbatim>\<open>ip\<close>, \<^verbatim>\<open>node\<close> and \<^verbatim>\<open>creationTimestamp\<close>,
  with the values of \<^verbatim>\<open>metadata.name\<close>, \<^verbatim>\<open>metadata.namespace\<close>, \<^verbatim>\<open>status.phase\<close>,
  \<^verbatim>\<open>status.podIP\<close>, \<^verbatim>\<open>spec.nodeName\<close> and \<^verbatim>\<open>metadata.creationTimestamp\<close> of the
  \<open>i\<close>-th pod. For \<open>N = 0\<close> the result is the success with the text \<^verbatim>\<open>[]\<close>.
\<close>

theorem list_pods_projection:
  assumes "k8sApi srv core_listNamespacedPod
             [js_or (opt_prop args ''namespace'') (JStr ''default'')] = Inr response"
    and "opt_prop (lookup_prop response ''body'') ''items'' = JArr pods"
    and "\<forall>pod\<in>set pods. \<not> nullish pod"
  shows "\<exists>projected.
           fst (CallTool srv ''list_pods'' args) = Inr (success (JSON_stringify (JArr projected)))
         \<and> length projected = length pods
         \<and> (\<forall>i<length pods. projected ! i = JObj
               [(''name'', opt_prop (lookup_prop (pods ! i) ''metadata'') ''name''),
                (''namespace'', opt_prop (lookup_prop (pods ! i) ''metadata'') ''namespace''),
                (''status'', opt_prop (lookup_prop (pods ! i) ''status'') ''phase''),
                (''ip'', opt_prop (lookup_prop (pods ! i) ''status'') ''podIP''),
                (''node'', opt_prop (lookup_prop (pods ! i) ''spec'') ''nodeName''),
                (''creationTimestamp'',
                   opt_prop (lookup_prop (pods ! i) ''metadata'') ''creationTimestamp'')])
         \<and> (pods = [] \<longrightarrow> fst (CallTool srv ''list_pods'' args) = Inr (success (JStr ''[]'')))"
proof -
  let ?g = "\<lambda>pod. JObj
       [(''name'', opt_prop (lookup_prop pod ''metadata'') ''name''),
        (''namespace'', opt_prop (lookup_prop pod ''metadata'') ''namespace''),
        (''status'', opt_prop (lookup_prop pod ''status'') ''phase''),
        (''ip'', opt_prop (lookup_prop pod ''status'') ''podIP''),
        (''node'', opt_prop (lookup_prop pod ''spec'') ''nodeName''),
        (''creationTimestamp'', opt_prop (lookup_prop pod ''metadata'') ''creationTimestamp'')]"
  have nn: "\<not> nullish response" using assms(2) by (rule opt_prop_lookup_JArr)
  obtain ks where ks: "Object_keys response = Inr ks"
    using Object_keys_not_nullish [OF nn] by blast
  have items: "chain2 response ''body'' ''items'' = Inr (JArr pods)"
    using nn assms(2) by (simp add: chain2_not_nullish)
  have "mapM project_pod pods = Inr (map ?g pods)"
    using assms(3) by (intro mapM_all_Inr) (simp add: project_pod_not_nullish)
  then have mapped: "array_map ''items'' project_pod (JArr pods) = Inr (JArr (map ?g pods))"
    by (simp add: array_map_def bind_e_def)
  have run: "fst (CallTool srv ''list_pods'' args) = Inr (success (JSON_stringify (JArr (map ?g pods))))"
    using assms(1) ks items mapped
    by (simp add: CallTool_def dispatch_def listPods_def Let_def comp_defs js_or_def)
  have empty: "pods = [] \<longrightarrow> fst (CallTool srv ''list_pods'' args) = Inr (success (JStr ''[]''))"
    using run by (simp add: JSON_stringify_def)
  show ?thesis
    using run empty by (intro exI [of _ "map ?g pods"]) simp
qed

theorem list_pods_projection_witness:
  "\<exists>projected.
     fst (CallTool (stub_server (Inr two_pods)) ''list_pods'' JUndefined) =
       Inr (success (JSON_stringify (JArr projected)))
     \<and> length projected = 2
     \<and> projected ! 0 = JObj
          [(''name'', JStr ''web-0''), (''namespace'', JStr ''default''),
           (''status'', JStr ''Running''), (''ip'', JStr ''10.0.0.7''),
           (''node'', JStr ''minikube''), (''creationTimestamp'', JUndefined)]
     \<and> projected ! 1 = JObj
          [(''name'', JStr ''web-1''), (''namespace'', JUndefined),
           (''status'', JUndefined), (''ip'', JUndefined),
           (''node'', JUndefined), (''creationTimestamp'', JUndefined)]"
proof -
  let ?pods = "[JObj [(''metadata'', JObj [(''name'', JStr ''web-0''), (''namespace'', JStr ''default'')]),
            (''status'', JObj [(''phase'', JStr ''Running''), (''podIP'', JStr ''10.0.0.7'')]),
            (''spec'', JObj [(''nodeName'', JStr ''minikube'')])],
      JObj [(''metadata'', JObj [(''name'', JStr ''web-1'')])]]"
  have a: "k8sApi (stub_server (Inr two_pods)) core_listNamespacedPod
             [js_or (opt_prop JUndefined ''namespace'') (JStr ''default'')] = Inr two_pods"
    by (simp add: stub_server_def)
  have b: "opt_prop (lookup_prop two_pods ''body'') ''items'' = JArr ?pods"
    by (simp add: two_pods_def opt_prop_def)
  have c: "\<forall>pod\<in>set ?pods. \<not> nullish pod" by simp
  from list_pods_projection [OF a b c] obtain projected where
    p: "fst (CallTool (stub_server (Inr two_pods)) ''list_pods'' JUndefined) =
       Inr (success (JSON_stringify (JArr projected)))"
     "length projected = length ?pods"
     "\<forall>i<length ?pods. projected ! i = JObj
               [(''name'', opt_prop (lookup_prop (?pods ! i) ''metadata'') ''name''),
                (''namespace'', opt_prop (lookup_prop (?pods ! i) ''metadata'') ''namespace''),
                (''status'', opt_prop (lookup_prop (?pods ! i) ''status'') ''phase''),
                (''ip'', opt_prop (lookup_prop (?pods ! i) ''status'') ''podIP''),
                (''node'', opt_prop (lookup_prop (?pods ! i) ''spec'') ''nodeName''),
                (''creationTimestamp'',
                   opt_prop (lookup_prop (?pods ! i) ''metadata'') ''creationTimestamp'')]"
    by blast
  have p0: "projected ! 0 = JObj
          [(''name'', JStr ''web-0''), (''namespace'', JStr ''default''),
           (''status'', JStr ''Running''), (''ip'', JStr ''10.0.0.7''),
           (''node'', JStr ''minikube''), (''creationTimestamp'', JUndefined)]"
    using p(3) [rule_format, of 0] by (simp add: opt_prop_def)
  have p1: "projected ! 1 = JObj
          [(''name'', JStr ''web-1''), (''namespace'', JUndefined),
           (''status'', JUndefined), (''ip'', JUndefined),
           (''node'', JUndefined), (''creationTimestamp'', JUndefined)]"
    using p(3) [rule_format, of 1] by (simp add: opt_prop_def)
  from p(1) p(2) p0 p1 show ?thesis by (intro exI [of _ projected]) simp
qed


section \<open>The projection of list\_nodes\<close>

lemma find_e_ready:
  "(\<And>c. c \<in> set cs \<Longrightarrow> \<not> nullish c) \<Longrightarrow>
   find_e is_ready_condition cs =
     Inr (case List.find (\<lambda>c. lookup_prop c ''type'' = JStr ''Ready'') cs of
            None \<Rightarrow> JUndefined | Some c \<Rightarrow> c)"
  by (induction cs) (simp_all add: is_ready_condition_def bind_e_def get_prop_def)

lemma lookup_prop_nullish: "nullish v \<Longrightarrow> lookup_prop v k = JUndefined"
  by (cases v) simp_all

lemma replace_prefix: "startsWith s p \<Longrightarrow> replace s p [] = drop (length p) s"
  by (cases s) (auto simp: startsWith_def)

lemma roles_of_entries:
  "map (\<lambda>(key, v). JStr (replace key role_prefix []))
       (filter (\<lambda>(key, v). startsWith key role_prefix) es) =
   map (\<lambda>k. JStr (drop (length role_prefix) k)) (filter (\<lambda>k. startsWith k role_prefix) (map fst es))"
  by (induction es) (auto simp: replace_prefix)

text \<open>
  Claim C4, as stated: the status is \<^verbatim>\<open>Ready\<close> exactly when the condition list contains
  an entry of type \<^verbatim>\<open>Ready\<close> whose status is \<^verbatim>\<open>True\<close>. The condition list of
  \<open>two_ready_node\<close> contains such an entry, after an entry of type \<^verbatim>\<open>Ready\<close> with
  status \<^verbatim>\<open>False\<close>, and the projected status is \<^verbatim>\<open>NotReady\<close>: \<^verbatim>\<open>find\<close> returns the
  first entry of the type.
\<close>

theorem node_status_counterexample:
  "opt_prop (lookup_prop two_ready_node ''status'') ''conditions'' =
     JArr [JObj [(''type'', JStr ''Ready''), (''status'', JStr ''False'')],
           JObj [(''type'', JStr ''Ready''), (''status'', JStr ''True'')]]
   \<and> project_node two_ready_node =
       Inr (JObj [(''name'', JStr ''node-1''),
                  (''status'', JStr ''NotReady''),
                  (''roles'', JArr [JStr ''control-plane'']),
                  (''version'', JUndefined),
                  (''osImage'', JUndefined),
                  (''kernelVersion'', JUndefined),
                  (''creationTimestamp'', JUndefined)])"
  by (simp add: two_ready_node_def project_node_def chain2_def chain3_def bind_e_def get_prop_def
      opt_prop_def opt_find_def is_ready_condition_def js_or_def Let_def role_prefix_def
      startsWith_def)

text \<open>
  Claim C4, amended. For a node whose condition list is absent or an array of objects,
  the projection succeeds; the projected status is \<^verbatim>\<open>Ready\<close> exactly when the first
  entry of the condition list with type \<^verbatim>\<open>Ready\<close> has the status \<^verbatim>\<open>True\<close>, and
  \<^verbatim>\<open>NotReady\<close> in every other case (that entry has another status, there is no such
  entry, the list is absent); the projected roles are the label keys that start with
  \<^verbatim>\<open>node-role.kubernetes.io/\<close>, in their order, without that prefix.
\<close>

theorem node_status_and_roles:
  assumes "\<not> nullish node"
    and "opt_prop (lookup_prop node ''status'') ''conditions'' = JArr cs \<and> (\<forall>c\<in>set cs. \<not> nullish c)
         \<or> nullish (opt_prop (lookup_prop node ''status'') ''conditions'') \<and> cs = []"
    and "opt_prop (lookup_prop node ''metadata'') ''labels'' = JObj labels
         \<or> \<not> truthy (opt_prop (lookup_prop node ''metadata'') ''labels'') \<and> labels = []"
  shows "\<exists>p. project_node node = Inr p
     \<and> lookup_prop p ''status'' =
         (if \<exists>c. List.find (\<lambda>c. lookup_prop c ''type'' = JStr ''Ready'') cs = Some c
                  \<and> lookup_prop c ''status'' = JStr ''True''
          then JStr ''Ready'' else JStr ''NotReady'')
     \<and> lookup_prop p ''roles'' =
         JArr (map (\<lambda>k. JStr (drop (length role_prefix) k))
                 (filter (\<lambda>k. startsWith k role_prefix) (map fst labels)))"
proof -
  let ?conds = "opt_prop (lookup_prop node ''status'') ''conditions''"
  let ?first = "case List.find (\<lambda>c. lookup_prop c ''type'' = JStr ''Ready'') cs of
                  None \<Rightarrow> JUndefined | Some c \<Rightarrow> c"
  have found: "opt_find ''node.status?.conditions'' is_ready_condition ?conds = Inr ?first"
    using assms(2)
  proof
    assume a: "?conds = JArr cs \<and> (\<forall>c\<in>set cs. \<not> nullish c)"
    then show ?thesis by (simp add: opt_find_def find_e_ready)
  next
    assume a: "nullish ?conds \<and> cs = []"
    then show ?thesis by (cases ?conds) (simp_all add: opt_find_def)
  qed
  have status: "(opt_prop ?first ''status'' = JStr ''True'') \<longleftrightarrow>
      (\<exists>c. List.find (\<lambda>c. lookup_prop c ''type'' = JStr ''Ready'') cs = Some c
                  \<and> lookup_prop c ''status'' = JStr ''True'')"
    by (cases "List.find (\<lambda>c. lookup_prop c ''type'' = JStr ''Ready'') cs")
      (auto simp: opt_prop_def lookup_prop_nullish)
  have entries: "Object_entries (js_or (opt_prop (lookup_prop node ''metadata'') ''labels'') (JObj [])) = Inr labels"
    using assms(3) by (auto simp: js_or_def)
  show ?thesis
    using assms(1) found entries status
    by (simp add: project_node_def chain2_not_nullish chain3_not_nullish bind_e_def Let_def roles_of_entries)
qed

theorem node_status_and_roles_witness:
  "\<exists>p. project_node two_ready_node = Inr p
     \<and> lookup_prop p ''status'' = JStr ''NotReady''
     \<and> lookup_prop p ''roles'' = JArr [JStr ''control-plane'']"
  using node_status_and_roles [of two_ready_node
      "[JObj [(''type'', JStr ''Ready''), (''status'', JStr ''False'')],
        JObj [(''type'', JStr ''Ready''), (''status'', JStr ''True'')]]"
      "[(''kubernetes.io/hostname'', JStr ''node-1''),
        (''node-role.kubernetes.io/control-plane'', JStr [])]"]
  by (simp add: two_ready_node_def opt_prop_def role_prefix_def startsWith_def)

section \<open>The projection of list\_configmaps\<close>

lemma map_of_map_prop:
  "map_of (map (\<lambda>(k', x). (k', if k' = k then f x else x)) kvs) k'' =
     (case map_of kvs k'' of None \<Rightarrow> None | Some x \<Rightarrow> Some (if k'' = k then f x else x))"
  by (induction kvs) auto

lemma lookup_map_prop:
  "lookup_prop (map_prop k f v) k' =
     (case v of
        JObj kvs \<Rightarrow> (case map_of kvs k' of None \<Rightarrow> JUndefined | Some x \<Rightarrow> if k' = k then f x else x)
      | _ \<Rightarrow> JUndefined)"
  by (cases v) (auto simp: map_prop_def map_of_map_prop split: option.splits)

lemma lookup_map_prop_other: "k' \<noteq> k \<Longrightarrow> lookup_prop (map_prop k f v) k' = lookup_prop v k'"
  by (cases v) (auto simp: map_prop_def map_of_map_prop split: option.splits)

lemma nullish_map_prop [simp]: "nullish (map_prop k f v) = nullish v"
  by (cases v) (simp_all add: map_prop_def)

lemma truthy_blank_values [simp]: "truthy (blank_values v) = truthy v"
  by (cases v) (simp_all add: blank_values_def)

lemma Object_keys_blank_values [simp]: "Object_keys (blank_values v) = Object_keys v"
  by (cases v) (simp_all add: blank_values_def Object_keys_def bind_e_def comp_def case_prod_beta)

lemma get_prop_map_prop_other: "k' \<noteq> k \<Longrightarrow> get_prop (map_prop k f v) k' = get_prop v k'"
  by (cases v) (simp_all add: get_prop_def lookup_map_prop_other, simp_all add: map_prop_def)

lemma chain2_map_prop_other: "a \<noteq> k \<Longrightarrow> chain2 (map_prop k f v) a b = chain2 v a b"
  by (simp add: chain2_def get_prop_map_prop_other)

lemma data_keys_blank:
  "bind_e (get_prop (map_prop ''data'' blank_values cm) ''data'')
     (\<lambda>data. bind_e (Object_keys (js_or data (JObj []))) g)
   = bind_e (get_prop cm ''data'') (\<lambda>data. bind_e (Object_keys (js_or data (JObj []))) g)"
proof (cases "nullish cm")
  case True
  then show ?thesis by (cases cm) (simp_all add: map_prop_def)
next
  case False
  then show ?thesis
    by (cases cm)
      (auto simp: get_prop_def bind_e_def js_or_def map_prop_def map_of_map_prop
            split: option.splits)
qed

lemma project_configmap_blank:
  "project_configmap (map_prop ''data'' blank_values cm) = project_configmap cm"
  by (simp add: project_configmap_def chain2_map_prop_other data_keys_blank)

lemma mapM_map: "mapM f (map g xs) = mapM (\<lambda>x. f (g x)) xs"
  by (induction xs) (simp_all split: sum.splits)

lemma array_map_blank:
  "array_map what project_configmap (map_items (map_prop ''data'' blank_values) items) =
   array_map what project_configmap items"
  by (cases items) (simp_all add: map_items_def array_map_def mapM_map project_configmap_blank)

lemma body_items_map_blank:
  "body_items_map project_configmap (blank_data_values response) =
   body_items_map project_configmap response"
proof (cases response)
  case (JObj kvs)
  show ?thesis
  proof (cases "map_of kvs ''body''")
    case None
    then show ?thesis using JObj
      by (simp add: body_items_map_def blank_data_values_def get_prop_def lookup_map_prop)
  next
    case (Some body)
    have items: "bind_e (get_prop (map_prop ''items'' (map_items (map_prop ''data'' blank_values)) body) ''items'')
                    (array_map ''response.body.items'' project_configmap)
               = bind_e (get_prop body ''items'') (array_map ''response.body.items'' project_configmap)"
    proof (cases body)
      case (JObj bkvs)
      then show ?thesis
        by (cases "map_of bkvs ''items''")
          (simp_all add: get_prop_def bind_e_def lookup_map_prop array_map_blank)
    qed (simp_all add: map_prop_def)
    show ?thesis using JObj Some items
      by (simp add: body_items_map_def blank_data_values_def get_prop_def lookup_map_prop bind_e_def)
  qed
qed (simp_all add: blank_data_values_def map_prop_def)



lemma listConfigMaps_answered:
  assumes "k8sApi srv core_listNamespacedConfigMap
             [js_or (opt_prop args ''namespace'') (JStr ''default''), JUndefined,
              opt_prop args ''labelSelector''] = Inr r"
  shows "listConfigMaps srv args =
     ((case body_items_map project_configmap r of
         Inl e \<Rightarrow> Inr (failure (''Error listing configmaps: '' @ error_message e))
       | Inr v \<Rightarrow> Inr (success (JSON_stringify v))),
      [(core_listNamespacedConfigMap,
        [js_or (opt_prop args ''namespace'') (JStr ''default''), JUndefined,
         opt_prop args ''labelSelector''])])"
  using assms
  by (simp add: listConfigMaps_def Let_def comp_defs split: sum.splits)

lemma lookup_prop_JArr: "lookup_prop v k = JArr xs \<Longrightarrow> \<not> nullish v"
  by (cases v) simp_all

lemma project_configmap_fields:
  assumes "\<not> nullish cm"
    and "(\<exists>kvs. lookup_prop cm ''data'' = JObj kvs) \<or> \<not> truthy (lookup_prop cm ''data'')"
  shows "project_configmap cm = Inr (JObj
        [(''name'', opt_prop (lookup_prop cm ''metadata'') ''name''),
         (''namespace'', opt_prop (lookup_prop cm ''metadata'') ''namespace''),
         (''dataKeys'', JArr (case lookup_prop cm ''data'' of
                                JObj kvs \<Rightarrow> map (\<lambda>(k, v). JStr k) kvs | _ \<Rightarrow> [])),
         (''creationTimestamp'', opt_prop (lookup_prop cm ''metadata'') ''creationTimestamp'')])"
proof -
  have conv: "map JStr (map fst kvs) = map (\<lambda>(k, v). JStr k) kvs" for kvs :: "(string \<times> json) list"
    by (induction kvs) auto
  from assms(2) have keys:
    "bind_e (Object_keys (js_or (lookup_prop cm ''data'') (JObj []))) (\<lambda>ks. Inr (JArr (map JStr ks)))
       = Inr (JArr (case lookup_prop cm ''data'' of
                      JObj kvs \<Rightarrow> map (\<lambda>(k, v). JStr k) kvs | _ \<Rightarrow> []))"
    by (cases "lookup_prop cm ''data''") (auto simp: js_or_def Object_keys_def bind_e_def conv)
  then have keys': "\<exists>ks. Object_keys (js_or (lookup_prop cm ''data'') (JObj [])) = Inr ks
      \<and> JArr (map JStr ks) = JArr (case lookup_prop cm ''data'' of
                      JObj kvs \<Rightarrow> map (\<lambda>(k, v). JStr k) kvs | _ \<Rightarrow> [])"
    by (cases "Object_keys (js_or (lookup_prop cm ''data'') (JObj []))") (simp_all add: bind_e_def)
  then obtain ks where ks: "Object_keys (js_or (lookup_prop cm ''data'') (JObj [])) = Inr ks"
      "map JStr ks = (case lookup_prop cm ''data'' of
                      JObj kvs \<Rightarrow> map (\<lambda>(k, v). JStr k) kvs | _ \<Rightarrow> [])"
    by auto
  from assms(1) ks show ?thesis
    by (simp add: project_configmap_def chain2_not_nullish get_prop_not_nullish bind_e_def)
qed

text \<open>
  Claim C5. When the upstream call of \<^verbatim>\<open>list_configmaps\<close> returns a response whose
  \<^verbatim>\<open>body.items\<close> is an array of configmaps, each with a data map or without one, the
  result is a success whose text is the serialisation of an array of as many objects, in
  the same order, the \<open>i\<close>-th of which has exactly the keys \<^verbatim>\<open>name\<close>, \<^verbatim>\<open>namespace\<close>,
  \<^verbatim>\<open>dataKeys\<close> and \<^verbatim>\<open>creationTimestamp\<close>, where \<^verbatim>\<open>dataKeys\<close> lists the keys of the
  data map of the \<open>i\<close>-th configmap (none for an empty or an absent one). No data value
  reaches the output: two servers whose upstream results differ only in the values of
  configmap data answer \<^verbatim>\<open>list_configmaps\<close> with the same envelope and make the same
  call.
\<close>

theorem list_configmaps_keys_only:
  "(k8sApi srv core_listNamespacedConfigMap
         [js_or (opt_prop args ''namespace'') (JStr ''default''), JUndefined,
          opt_prop args ''labelSelector''] = Inr response
      \<and> lookup_prop (lookup_prop response ''body'') ''items'' = JArr cms
      \<and> (\<forall>cm\<in>set cms. \<not> nullish cm
            \<and> ((\<exists>kvs. lookup_prop cm ''data'' = JObj kvs) \<or> \<not> truthy (lookup_prop cm ''data'')))
     \<longrightarrow>
      (\<exists>projected.
          fst (CallTool srv ''list_configmaps'' args) =
            Inr (success (JSON_stringify (JArr projected)))
        \<and> length projected = length cms
        \<and> (\<forall>i<length cms. projected ! i = JObj
              [(''name'', opt_prop (lookup_prop (cms ! i) ''metadata'') ''name''),
               (''namespace'', opt_prop (lookup_prop (cms ! i) ''metadata'') ''namespace''),
               (''dataKeys'', JArr (case lookup_prop (cms ! i) ''data'' of
                                      JObj kvs \<Rightarrow> map (\<lambda>(k, v). JStr k) kvs | _ \<Rightarrow> [])),
               (''creationTimestamp'',
                  opt_prop (lookup_prop (cms ! i) ''metadata'') ''creationTimestamp'')])))
   \<and> (k8sApi srv1 core_listNamespacedConfigMap
         [js_or (opt_prop args ''namespace'') (JStr ''default''), JUndefined,
          opt_prop args ''labelSelector''] = Inr r1
      \<and> k8sApi srv2 core_listNamespacedConfigMap
         [js_or (opt_prop args ''namespace'') (JStr ''default''), JUndefined,
          opt_prop args ''labelSelector''] = Inr r2
      \<and> blank_data_values r1 = blank_data_values r2 \<longrightarrow>
      CallTool srv1 ''list_configmaps'' args = CallTool srv2 ''list_configmaps'' args)"
proof (intro conjI impI)
  let ?g = "\<lambda>cm. JObj
        [(''name'', opt_prop (lookup_prop cm ''metadata'') ''name''),
         (''namespace'', opt_prop (lookup_prop cm ''metadata'') ''namespace''),
         (''dataKeys'', JArr (case lookup_prop cm ''data'' of
                                JObj kvs \<Rightarrow> map (\<lambda>(k, v). JStr k) kvs | _ \<Rightarrow> [])),
         (''creationTimestamp'', opt_prop (lookup_prop cm ''metadata'') ''creationTimestamp'')]"
  assume a: "k8sApi srv core_listNamespacedConfigMap
         [js_or (opt_prop args ''namespace'') (JStr ''default''), JUndefined,
          opt_prop args ''labelSelector''] = Inr response
      \<and> lookup_prop (lookup_prop response ''body'') ''items'' = JArr cms
      \<and> (\<forall>cm\<in>set cms. \<not> nullish cm
            \<and> ((\<exists>kvs. lookup_prop cm ''data'' = JObj kvs) \<or> \<not> truthy (lookup_prop cm ''data'')))"
  then have items: "lookup_prop (lookup_prop response ''body'') ''items'' = JArr cms" by simp
  then have nb: "\<not> nullish (lookup_prop response ''body'')" by (rule lookup_prop_JArr)
  then have nr: "\<not> nullish response" by (cases response) simp_all
  have "mapM project_configmap cms = Inr (map ?g cms)"
    using a by (intro mapM_all_Inr project_configmap_fields) auto
  then have "body_items_map project_configmap response = Inr (JArr (map ?g cms))"
    using items nb nr
    by (simp add: body_items_map_def get_prop_not_nullish bind_e_def array_map_def)
  moreover from a have "listConfigMaps srv args =
     ((case body_items_map project_configmap response of
         Inl e \<Rightarrow> Inr (failure (''Error listing configmaps: '' @ error_message e))
       | Inr v \<Rightarrow> Inr (success (JSON_stringify v))),
      [(core_listNamespacedConfigMap,
        [js_or (opt_prop args ''namespace'') (JStr ''default''), JUndefined,
         opt_prop args ''labelSelector''])])"
    by (intro listConfigMaps_answered) simp
  ultimately have "fst (CallTool srv ''list_configmaps'' args) =
      Inr (success (JSON_stringify (JArr (map ?g cms))))"
    by (simp add: CallTool_def dispatch_def try_catch_def)
  then show "\<exists>projected.
          fst (CallTool srv ''list_configmaps'' args) =
            Inr (success (JSON_stringify (JArr projected)))
        \<and> length projected = length cms
        \<and> (\<forall>i<length cms. projected ! i = JObj
              [(''name'', opt_prop (lookup_prop (cms ! i) ''metadata'') ''name''),
               (''namespace'', opt_prop (lookup_prop (cms ! i) ''metadata'') ''namespace''),
               (''dataKeys'', JArr (case lookup_prop (cms ! i) ''data'' of
                                      JObj kvs \<Rightarrow> map (\<lambda>(k, v). JStr k) kvs | _ \<Rightarrow> [])),
               (''creationTimestamp'',
                  opt_prop (lookup_prop (cms ! i) ''metadata'') ''creationTimestamp'')])"
    by (intro exI [of _ "map ?g cms"]) simp
next
  assume a: "k8sApi srv1 core_listNamespacedConfigMap
         [js_or (opt_prop args ''namespace'') (JStr ''default''), JUndefined,
          opt_prop args ''labelSelector''] = Inr r1
      \<and> k8sApi srv2 core_listNamespacedConfigMap
         [js_or (opt_prop args ''namespace'') (JStr ''default''), JUndefined,
          opt_prop args ''labelSelector''] = Inr r2
      \<and> blank_data_values r1 = blank_data_values r2"
  then have "body_items_map project_configmap r1 = body_items_map project_configmap r2"
    using body_items_map_blank [of r1] body_items_map_blank [of r2] by simp
  moreover from a have "listConfigMaps srv1 args =
     ((case body_items_map project_configmap r1 of
         Inl e \<Rightarrow> Inr (failure (''Error listing configmaps: '' @ error_message e))
       | Inr v \<Rightarrow> Inr (success (JSON_stringify v))),
      [(core_listNamespacedConfigMap,
        [js_or (opt_prop args ''namespace'') (JStr ''default''), JUndefined,
         opt_prop args ''labelSelector''])])"
    by (intro listConfigMaps_answered) simp
  moreover from a have "listConfigMaps srv2 args =
     ((case body_items_map project_configmap r2 of
         Inl e \<Rightarrow> Inr (failure (''Error listing configmaps: '' @ error_message e))
       | Inr v \<Rightarrow> Inr (success (JSON_stringify v))),
      [(core_listNamespacedConfigMap,
        [js_or (opt_prop args ''namespace'') (JStr ''default''), JUndefined,
         opt_prop args ''labelSelector''])])"
    by (intro listConfigMaps_answered) simp
  ultimately have "listConfigMaps srv1 args = listConfigMaps srv2 args"
    by simp
  then show "CallTool srv1 ''list_configmaps'' args = CallTool srv2 ''list_configmaps'' args"
    by (simp add: CallTool_def dispatch_def)
qed

theorem list_configmaps_keys_only_witness:
  "(\<exists>projected.
      fst (CallTool (stub_server (Inr (two_configmaps ''hunter2'' ''db:5432'')))
             ''list_configmaps'' JUndefined) =
        Inr (success (JSON_stringify (JArr projected)))
      \<and> length projected = 2
      \<and> projected ! 0 = JObj
           [(''name'', JStr ''app-config''), (''namespace'', JStr ''default''),
            (''dataKeys'', JArr [JStr ''DB_PASSWORD'', JStr ''DB_URL'']),
            (''creationTimestamp'', JUndefined)]
      \<and> projected ! 1 = JObj
           [(''name'', JStr ''empty''), (''namespace'', JUndefined),
            (''dataKeys'', JArr []), (''creationTimestamp'', JUndefined)])
   \<and> CallTool (stub_server (Inr (two_configmaps ''hunter2'' ''db:5432'')))
        ''list_configmaps'' JUndefined =
     CallTool (stub_server (Inr (two_configmaps ''swordfish'' ''replica:5433'')))
        ''list_configmaps'' JUndefined"
proof -
  let ?srv = "stub_server (Inr (two_configmaps ''hunter2'' ''db:5432''))"
  let ?srv' = "stub_server (Inr (two_configmaps ''swordfish'' ''replica:5433''))"
  let ?cms = "[JObj [(''metadata'', JObj [(''name'', JStr ''app-config''),
                                          (''namespace'', JStr ''default'')]),
                     (''data'', JObj [(''DB_PASSWORD'', JStr ''hunter2''),
                                      (''DB_URL'', JStr ''db:5432'')])],
               JObj [(''metadata'', JObj [(''name'', JStr ''empty'')])]]"
  note inst = list_configmaps_keys_only [of "?srv" JUndefined "two_configmaps ''hunter2'' ''db:5432''"
      "?cms" "?srv" "two_configmaps ''hunter2'' ''db:5432''" "?srv'"
      "two_configmaps ''swordfish'' ''replica:5433''"]
  have a: "k8sApi ?srv core_listNamespacedConfigMap
         [js_or (opt_prop JUndefined ''namespace'') (JStr ''default''), JUndefined,
          opt_prop JUndefined ''labelSelector''] = Inr (two_configmaps ''hunter2'' ''db:5432'')"
    by (simp add: stub_server_def)
  have a': "k8sApi ?srv' core_listNamespacedConfigMap
         [js_or (opt_prop JUndefined ''namespace'') (JStr ''default''), JUndefined,
          opt_prop JUndefined ''labelSelector''] = Inr (two_configmaps ''swordfish'' ''replica:5433'')"
    by (simp add: stub_server_def)
  have b: "lookup_prop (lookup_prop (two_configmaps ''hunter2'' ''db:5432'') ''body'') ''items'' =
             JArr ?cms"
    by (simp add: two_configmaps_def)
  have c: "\<forall>cm\<in>set ?cms. \<not> nullish cm
            \<and> ((\<exists>kvs. lookup_prop cm ''data'' = JObj kvs) \<or> \<not> truthy (lookup_prop cm ''data''))"
    by simp
  have d: "blank_data_values (two_configmaps ''hunter2'' ''db:5432'') =
           blank_data_values (two_configmaps ''swordfish'' ''replica:5433'')"
    by (simp add: blank_data_values_def map_prop_def map_items_def blank_values_def
        two_configmaps_def)
  from inst a b c obtain projected where
    p: "fst (CallTool ?srv ''list_configmaps'' JUndefined) =
          Inr (success (JSON_stringify (JArr projected)))"
       "length projected = length ?cms"
       "\<forall>i<length ?cms. projected ! i = JObj
              [(''name'', opt_prop (lookup_prop (?cms ! i) ''metadata'') ''name''),
               (''namespace'', opt_prop (lookup_prop (?cms ! i) ''metadata'') ''namespace''),
               (''dataKeys'', JArr (case lookup_prop (?cms ! i) ''data'' of
                                      JObj kvs \<Rightarrow> map (\<lambda>(k, v). JStr k) kvs | _ \<Rightarrow> [])),
               (''creationTimestamp'',
                  opt_prop (lookup_prop (?cms ! i) ''metadata'') ''creationTimestamp'')]"
    by blast
  have p0: "projected ! 0 = JObj
           [(''name'', JStr ''app-config''), (''namespace'', JStr ''default''),
            (''dataKeys'', JArr [JStr ''DB_PASSWORD'', JStr ''DB_URL'']),
            (''creationTimestamp'', JUndefined)]"
    using p(3) [rule_format, of 0] by (simp add: opt_prop_def)
  have p1: "projected ! 1 = JObj
           [(''name'', JStr ''empty''), (''namespace'', JUndefined),
            (''dataKeys'', JArr []), (''creationTimestamp'', JUndefined)]"
    using p(3) [rule_format, of 1] by (simp add: opt_prop_def)
  have first: "\<exists>projected.
      fst (CallTool ?srv ''list_configmaps'' JUndefined) =
        Inr (success (JSON_stringify (JArr projected)))
      \<and> length projected = 2
      \<and> projected ! 0 = JObj
           [(''name'', JStr ''app-config''), (''namespace'', JStr ''default''),
            (''dataKeys'', JArr [JStr ''DB_PASSWORD'', JStr ''DB_URL'']),
            (''creationTimestamp'', JUndefined)]
      \<and> projected ! 1 = JObj
           [(''name'', JStr ''empty''), (''namespace'', JUndefined),
            (''dataKeys'', JArr []), (''creationTimestamp'', JUndefined)]"
    using p(1) p(2) p0 p1 by (intro exI [of _ projected]) simp
  from inst a a' d have second:
    "CallTool ?srv ''list_configmaps'' JUndefined = CallTool ?srv' ''list_configmaps'' JUndefined"
    by blast
  from first second show ?thesis by (rule conjI)
qed

section \<open>The invocation boundary\<close>

lemma outcome_getClusterInfo:
  "\<exists>env. fst (getClusterInfo srv) = Inr env
     \<and> (upstream_failed srv (snd (getClusterInfo srv)) \<longrightarrow> error_envelope env)"
  by (auto simp: getClusterInfo_def comp_defs failure_def split: sum.splits)

lemma outcome_listPods:
  "\<exists>env. fst (listPods srv args) = Inr env
     \<and> (upstream_failed srv (snd (listPods srv args)) \<longrightarrow> error_envelope env)"
  by (auto simp: listPods_def Let_def comp_defs failure_def unable_to_connect_def split: sum.splits)

lemma outcome_listServices:
  "\<exists>env. fst (listServices srv args) = Inr env
     \<and> (upstream_failed srv (snd (listServices srv args)) \<longrightarrow> error_envelope env)"
  by (auto simp: listServices_def Let_def comp_defs failure_def split: sum.splits)

lemma outcome_listDeployments:
  "\<exists>env. fst (listDeployments srv args) = Inr env
     \<and> (upstream_failed srv (snd (listDeployments srv args)) \<longrightarrow> error_envelope env)"
  by (auto simp: listDeployments_def Let_def comp_defs failure_def split: sum.splits)

lemma outcome_listConfigMaps:
  "\<exists>env. fst (listConfigMaps srv args) = Inr env
     \<and> (upstream_failed srv (snd (listConfigMaps srv args)) \<longrightarrow> error_envelope env)"
  by (auto simp: listConfigMaps_def Let_def comp_defs failure_def split: sum.splits)

lemma outcome_listNodes:
  "\<exists>env. fst (listNodes srv args) = Inr env
     \<and> (upstream_failed srv (snd (listNodes srv args)) \<longrightarrow> error_envelope env)"
  by (auto simp: listNodes_def Let_def comp_defs failure_def split: sum.splits)

lemma outcome_listNamespaces:
  "\<exists>env. fst (listNamespaces srv) = Inr env
     \<and> (upstream_failed srv (snd (listNamespaces srv)) \<longrightarrow> error_envelope env)"
  by (auto simp: listNamespaces_def namespaces_of_def Let_def comp_defs failure_def split: sum.splits)

lemma outcome_describeNamespaced:
  "\<exists>env. fst (describeNamespaced m K k srv args) = Inr env
     \<and> (\<not> truthy (opt_prop args ''name'') \<or> upstream_failed srv (snd (describeNamespaced m K k srv args))
          \<longrightarrow> error_envelope env)"
proof (cases "truthy (opt_prop args ''name'')")
  case False
  then show ?thesis by (simp add: describeNamespaced_def comp_defs failure_def)
next
  case True
  then have "\<not> nullish args" by (rule truthy_opt_prop)
  with True show ?thesis
    by (auto simp: describeNamespaced_def Let_def comp_defs failure_def get_prop_not_nullish split: sum.splits)
qed

lemma outcome_describeNode:
  "\<exists>env. fst (describeNode srv args) = Inr env
     \<and> (\<not> truthy (opt_prop args ''name'') \<or> upstream_failed srv (snd (describeNode srv args))
          \<longrightarrow> error_envelope env)"
proof (cases "truthy (opt_prop args ''name'')")
  case False
  then show ?thesis by (simp add: describeNode_def comp_defs failure_def)
next
  case True
  then have "\<not> nullish args" by (rule truthy_opt_prop)
  with True show ?thesis
    by (auto simp: describeNode_def Let_def comp_defs failure_def get_prop_not_nullish split: sum.splits)
qed

lemma outcome_getPodLogs:
  "\<exists>env. fst (getPodLogs srv args) = Inr env
     \<and> (\<not> truthy (opt_prop args ''name'') \<or> upstream_failed srv (snd (getPodLogs srv args))
          \<longrightarrow> error_envelope env)"
proof (cases "truthy (opt_prop args ''name'')")
  case False
  then show ?thesis by (simp add: getPodLogs_def comp_defs failure_def)
next
  case True
  then have "\<not> nullish args" by (rule truthy_opt_prop)
  with True show ?thesis
    by (auto simp: getPodLogs_def Let_def comp_defs failure_def get_prop_not_nullish split: sum.splits)
qed

lemma CallTool_of_dispatch:
  assumes "\<exists>env. fst (dispatch srv n args) = Inr env \<and> (P \<longrightarrow> error_envelope env)"
  shows "\<exists>env. fst (CallTool srv n args) = Inr env \<and> (P \<longrightarrow> error_envelope env)"
  using assms by (auto simp: CallTool_def try_catch_def)

lemma snd_CallTool: "snd (CallTool srv n args) = snd (dispatch srv n args)"
  by (simp add: CallTool_def snd_try_catch_ret)

lemma tool_contracts:
  "map (\<lambda>t. (name t, required t)) ListTools =
     [(''get_cluster_info'', []), (''list_pods'', []), (''list_services'', []),
      (''list_deployments'', []), (''describe_pod'', [''name'']),
      (''describe_service'', [''name'']), (''describe_deployment'', [''name'']),
      (''get_pod_logs'', [''name'']), (''list_namespaces'', []), (''list_nodes'', []),
      (''describe_node'', [''name'']), (''list_configmaps'', []),
      (''describe_configmap'', [''name''])]"
  by (simp add: ListTools_def)

lemma tool_names:
  "map name ListTools =
     [''get_cluster_info'', ''list_pods'', ''list_services'', ''list_deployments'',
      ''describe_pod'', ''describe_service'', ''describe_deployment'', ''get_pod_logs'',
      ''list_namespaces'', ''list_nodes'', ''describe_node'', ''list_configmaps'',
      ''describe_configmap'']"
  by (simp add: ListTools_def)


lemma required_fields:
  "(\<exists>t\<in>set ListTools. name t = n \<and> (\<exists>field\<in>set (required t). \<not> truthy (opt_prop args field))) \<longleftrightarrow>
   (n \<in> {''describe_pod'', ''describe_service'', ''describe_deployment'', ''get_pod_logs'',
          ''describe_node'', ''describe_configmap''} \<and> \<not> truthy (opt_prop args ''name''))"
proof -
  have "(\<exists>t\<in>set ListTools. name t = n \<and> (\<exists>field\<in>set (required t). \<not> truthy (opt_prop args field))) \<longleftrightarrow>
        (\<exists>p\<in>set (map (\<lambda>t. (name t, required t)) ListTools).
            fst p = n \<and> (\<exists>field\<in>set (snd p). \<not> truthy (opt_prop args field)))"
    by simp
  also have "\<dots> \<longleftrightarrow> (n \<in> {''describe_pod'', ''describe_service'', ''describe_deployment'', ''get_pod_logs'',
          ''describe_node'', ''describe_configmap''} \<and> \<not> truthy (opt_prop args ''name''))"
    unfolding tool_contracts by auto
  finally show ?thesis .
qed

lemma unknown_tool:
  assumes "n \<notin> set (map name ListTools)"
  shows "CallTool srv n args = (Inr (failure (''Error: Unknown tool: '' @ n)), [])"
proof -
  from assms have "dispatch srv n args = throw (McpError MethodNotFound (''Unknown tool: '' @ n))"
    unfolding tool_names by (simp add: dispatch_def)
  then show ?thesis by (simp add: CallTool_def comp_defs)
qed

lemma fst_handle: "fst (handle srv req) = srv"
  by (cases req) (simp_all add: handle_def split: prod.splits sum.splits)

lemma run_same_server: "run srv reqs = (srv, map (\<lambda>req. snd (handle srv req)) reqs)"
proof (induction reqs)
  case Nil
  show ?case by simp
next
  case (Cons r reqs)
  obtain out where out: "handle srv r = (srv, out)"
    using fst_handle [of srv r] by (metis prod.collapse)
  show ?case by (simp add: out Cons)
qed


text \<open>
  Claim C1. Every invocation returns an envelope: no exception leaves \<^verbatim>\<open>CallTool\<close>.
  When an error occurs (the tool name is not in the catalog, a required field of the
  tool's catalog entry is missing or empty, or an upstream call of the invocation is
  answered by an exception) the envelope has \<^verbatim>\<open>isError: true\<close> and one text entry, a
  non-empty string. The server after any sequence of requests is the server before it,
  so a request after that sequence, failures included, gets the answer that the fresh
  server gives it.
\<close>

theorem errors_become_failures:
  "(\<exists>env. fst (CallTool srv n args) = Inr env
      \<and> (n \<notin> set (map name ListTools)
          \<or> (\<exists>t\<in>set ListTools. name t = n
                \<and> (\<exists>field\<in>set (required t). \<not> truthy (opt_prop args field)))
          \<or> (\<exists>c\<in>set (snd (CallTool srv n args)). \<exists>e. k8sApi srv (fst c) (snd c) = Inl e)
          \<longrightarrow> isError env = Some True
              \<and> (\<exists>t. t \<noteq> [] \<and> content env = [\<lparr>type' = ''text'', text' = JStr t\<rparr>])))
   \<and> fst (run srv reqs) = srv
   \<and> snd (run srv (reqs @ [req])) = snd (run srv reqs) @ [snd (handle srv req)]"
proof -
  have "\<exists>env. fst (CallTool srv n args) = Inr env
      \<and> (n \<notin> set (map name ListTools)
          \<or> (\<exists>t\<in>set ListTools. name t = n
                \<and> (\<exists>field\<in>set (required t). \<not> truthy (opt_prop args field)))
          \<or> upstream_failed srv (snd (CallTool srv n args))
          \<longrightarrow> error_envelope env)"
  proof (cases "n \<in> set (map name ListTools)")
    case False
    then show ?thesis by (simp add: unknown_tool failure_def)
  next
    case True
    then have "n = ''get_cluster_info'' \<or> n = ''list_pods'' \<or> n = ''list_services''
      \<or> n = ''list_deployments'' \<or> n = ''describe_pod'' \<or> n = ''describe_service''
      \<or> n = ''describe_deployment'' \<or> n = ''get_pod_logs'' \<or> n = ''list_namespaces''
      \<or> n = ''list_nodes'' \<or> n = ''describe_node'' \<or> n = ''list_configmaps''
      \<or> n = ''describe_configmap''"
      unfolding tool_names by simp
    then show ?thesis
    proof (elim disjE)
      assume "n = ''get_cluster_info''"
      with True outcome_getClusterInfo [of srv] show ?thesis
        unfolding required_fields snd_CallTool
        by (intro CallTool_of_dispatch) (simp add: dispatch_def)
    next
      assume "n = ''list_pods''"
      with True outcome_listPods [of srv args] show ?thesis
        unfolding required_fields snd_CallTool
        by (intro CallTool_of_dispatch) (simp add: dispatch_def)
    next
      assume "n = ''list_services''"
      with True outcome_listServices [of srv args] show ?thesis
        unfolding required_fields snd_CallTool
        by (intro CallTool_of_dispatch) (simp add: dispatch_def)
    next
      assume "n = ''list_deployments''"
      with True outcome_listDeployments [of srv args] show ?thesis
        unfolding required_fields snd_CallTool
        by (intro CallTool_of_dispatch) (simp add: dispatch_def)
    next
      assume "n = ''describe_pod''"
      with True outcome_describeNamespaced [of core_readNamespacedPod "''Pod''" "''pod''" srv args]
      show ?thesis
        unfolding required_fields snd_CallTool
        by (intro CallTool_of_dispatch) (simp add: dispatch_def describePod_def)
    next
      assume "n = ''describe_service''"
      with True outcome_describeNamespaced
        [of core_readNamespacedService "''Service''" "''service''" srv args]
      show ?thesis
        unfolding required_fields snd_CallTool
        by (intro CallTool_of_dispatch) (simp add: dispatch_def describeService_def)
    next
      assume "n = ''describe_deployment''"
      with True outcome_describeNamespaced
        [of apps_readNamespacedDeployment "''Deployment''" "''deployment''" srv args]
      show ?thesis
        unfolding required_fields snd_CallTool
        by (intro CallTool_of_dispatch) (simp add: dispatch_def describeDeployment_def)
    next
      assume "n = ''get_pod_logs''"
      with True outcome_getPodLogs [of srv args] show ?thesis
        unfolding required_fields snd_CallTool
        by (intro CallTool_of_dispatch) (simp add: dispatch_def)
    next
      assume "n = ''list_namespaces''"
      with True outcome_listNamespaces [of srv] show ?thesis
        unfolding required_fields snd_CallTool
        by (intro CallTool_of_dispatch) (simp add: dispatch_def)
    next
      assume "n = ''list_nodes''"
      with True outcome_listNodes [of srv args] show ?thesis
        unfolding required_fields snd_CallTool
        by (intro CallTool_of_dispatch) (simp add: dispatch_def)
    next
      assume "n = ''describe_node''"
      with True outcome_describeNode [of srv args] show ?thesis
        unfolding required_fields snd_CallTool
        by (intro CallTool_of_dispatch) (simp add: dispatch_def)
    next
      assume "n = ''list_configmaps''"
      with True outcome_listConfigMaps [of srv args] show ?thesis
        unfolding required_fields snd_CallTool
        by (intro CallTool_of_dispatch) (simp add: dispatch_def)
    next
      assume "n = ''describe_configmap''"
      with True outcome_describeNamespaced
        [of core_readNamespacedConfigMap "''ConfigMap''" "''configmap''" srv args]
      show ?thesis
        unfolding required_fields snd_CallTool
        by (intro CallTool_of_dispatch) (simp add: dispatch_def describeConfigMap_def)
    qed
  qed
  then show ?thesis by (simp add: run_same_server)
qed

theorem errors_become_failures_witness:
  "(\<exists>env. fst (CallTool (stub_server (Inl (JsError ''connect ECONNREFUSED''))) ''list_nodes''
               JUndefined) = Inr env
      \<and> isError env = Some True
      \<and> (\<exists>t. t \<noteq> [] \<and> content env = [\<lparr>type' = ''text'', text' = JStr t\<rparr>]))
   \<and> (\<exists>env. fst (CallTool (stub_server (Inr JNull)) ''delete_pod'' JUndefined) = Inr env
      \<and> isError env = Some True
      \<and> (\<exists>t. t \<noteq> [] \<and> content env = [\<lparr>type' = ''text'', text' = JStr t\<rparr>]))
   \<and> (\<exists>env. fst (CallTool (stub_server (Inr JNull)) ''describe_pod'' (JObj [])) = Inr env
      \<and> isError env = Some True
      \<and> (\<exists>t. t \<noteq> [] \<and> content env = [\<lparr>type' = ''text'', text' = JStr t\<rparr>]))"
proof -
  have h1: "\<exists>c\<in>set (snd (CallTool (stub_server (Inl (JsError ''connect ECONNREFUSED'')))
                             ''list_nodes'' JUndefined)).
              \<exists>e. k8sApi (stub_server (Inl (JsError ''connect ECONNREFUSED''))) (fst c) (snd c) = Inl e"
    by (simp add: snd_CallTool dispatch_def listNodes_def comp_defs stub_server_def)
  have h2: "''delete_pod'' \<notin> set (map name ListTools)"
    unfolding tool_names by simp
  from h1 errors_become_failures
      [of "stub_server (Inl (JsError ''connect ECONNREFUSED''))" "''list_nodes''" JUndefined
          "[]" ListToolsRequest]
  have a: "\<exists>env. fst (CallTool (stub_server (Inl (JsError ''connect ECONNREFUSED''))) ''list_nodes''
               JUndefined) = Inr env
      \<and> isError env = Some True
      \<and> (\<exists>t. t \<noteq> [] \<and> content env = [\<lparr>type' = ''text'', text' = JStr t\<rparr>])"
    by simp
  from h2 errors_become_failures
      [of "stub_server (Inr JNull)" "''delete_pod''" JUndefined "[]" ListToolsRequest]
  have b: "\<exists>env. fst (CallTool (stub_server (Inr JNull)) ''delete_pod'' JUndefined) = Inr env
      \<and> isError env = Some True
      \<and> (\<exists>t. t \<noteq> [] \<and> content env = [\<lparr>type' = ''text'', text' = JStr t\<rparr>])"
    by simp
  have h3: "\<exists>t\<in>set ListTools. name t = ''describe_pod''
              \<and> (\<exists>field\<in>set (required t). \<not> truthy (opt_prop (JObj []) field))"
    unfolding required_fields by (simp add: opt_prop_def)
  from h3 errors_become_failures
      [of "stub_server (Inr JNull)" "''describe_pod''" "JObj []" "[]" ListToolsRequest]
  have c: "\<exists>env. fst (CallTool (stub_server (Inr JNull)) ''describe_pod'' (JObj [])) = Inr env
      \<and> isError env = Some True
      \<and> (\<exists>t. t \<noteq> [] \<and> content env = [\<lparr>type' = ''text'', text' = JStr t\<rparr>])"
    by simp
  from a b c show ?thesis by (intro conjI)
qed

end
